theory Spec2Isabelle
  imports Main
begin

section \<open>Dataset-level feature attribution: captum/attr/_core/dataloader_attr.py\<close>

text \<open>
  A shallow embedding of \<^verbatim>\<open>DataloaderAttribution\<close>: the role constants, the default
  reducer \<^verbatim>\<open>_concat_tensors\<close>, the output reconstruction \<^verbatim>\<open>_convert_output_shape\<close>,
  the constructor, the per-pass forward function \<^verbatim>\<open>_forward_with_dataloader\<close> and the
  public \<^verbatim>\<open>attribute\<close>.

  Python exceptions are values of type \<open>error\<close>; a function that may raise returns
  \<open>error + 'a\<close> with \<open>Inl\<close> for the exception. Tensors are a shape together with the
  row-major list of their elements, as contiguous torch tensors are stored. The element type
  \<open>'a\<close> is any ring with one: the model follows the arithmetic the code writes, not
  floating-point rounding. Calls to the user's callbacks (forward function, reduce, to-metric)
  are recorded in a call log that the functions return next to their value.
\<close>

subsection \<open>Errors\<close>

datatype config_error =
    UnsupportedMethod | RolesLength | NoAttrRole | BaselineCount | BaselineBatchDim nat
  | MaskCount | MaskBatchDim nat | OutputNotSingle | NotATensor

datatype error =
    AssertionError config_error | IndexError | RuntimeError | TypeError | ValueError
  | AttributeError | StopIteration

definition ebind :: "error + 'x \<Rightarrow> ('x \<Rightarrow> error + 'y) \<Rightarrow> error + 'y" where
  "ebind m f = (case m of Inl e \<Rightarrow> Inl e | Inr x \<Rightarrow> f x)"

definition py_assert :: "bool \<Rightarrow> config_error \<Rightarrow> error + unit" where
  "py_assert c msg = (if c then Inr () else Inl (AssertionError msg))"

definition cons_ok :: "'x \<Rightarrow> error + 'x list \<Rightarrow> error + 'x list" where
  "cons_ok x r = (case r of Inl e \<Rightarrow> Inl e | Inr xs \<Rightarrow> Inr (x # xs))"

subsection \<open>Tensors\<close>

record 'a tensor =
  shape :: "nat list"
  elems :: "'a list"

definition wf_tensor :: "'a tensor \<Rightarrow> bool" where
  "wf_tensor t = (length (elems t) = prod_list (shape t))"

text \<open>Row-major offset of a multi-index, and the multi-index of an offset.\<close>

fun ravel :: "nat list \<Rightarrow> nat list \<Rightarrow> nat" where
  "ravel (d # ds) (i # is) = i * prod_list ds + ravel ds is"
| "ravel _ _ = 0"

fun unravel :: "nat list \<Rightarrow> nat \<Rightarrow> nat list" where
  "unravel [] k = []"
| "unravel (d # ds) k = (k div prod_list ds) # unravel ds (k mod prod_list ds)"

definition valid_index :: "nat list \<Rightarrow> nat list \<Rightarrow> bool" where
  "valid_index s idx = list_all2 (\<lambda>i d. i < d) idx s"

definition tensor_at :: "'a tensor \<Rightarrow> nat list \<Rightarrow> 'a" where
  "tensor_at t idx = elems t ! ravel (shape t) idx"

definition broadcast_index :: "nat list \<Rightarrow> nat list \<Rightarrow> nat list" where
  "broadcast_index s idx = map2 (\<lambda>d i. if d = 1 then 0 else i) s idx"

text \<open>
  \<^verbatim>\<open>Tensor.expand(size)\<close>: the target may have more dimensions than the tensor (new ones
  are added in front); every existing dimension must equal the target or be 1.
\<close>

definition tensor_expand :: "'a tensor \<Rightarrow> nat list \<Rightarrow> error + 'a tensor" where
  "tensor_expand t tgt =
    (if length tgt < length (shape t) then Inl RuntimeError
     else let src = replicate (length tgt - length (shape t)) 1 @ shape t in
       if list_all2 (\<lambda>d g. d = g \<or> d = 1) src tgt
       then Inr \<lparr>shape = tgt,
                 elems = map (\<lambda>k. elems t ! ravel src (broadcast_index src (unravel tgt k)))
                             [0..<prod_list tgt]\<rparr>
       else Inl RuntimeError)"

text \<open>\<^verbatim>\<open>Tensor.reshape(shape)\<close> with explicit sizes: the number of elements must agree.\<close>

definition tensor_reshape :: "'a tensor \<Rightarrow> nat list \<Rightarrow> error + 'a tensor" where
  "tensor_reshape t s =
    (if prod_list s = prod_list (shape t) then Inr \<lparr>shape = s, elems = elems t\<rparr>
     else Inl RuntimeError)"

text \<open>
  \<^verbatim>\<open>torch.gather(input, -1, index)\<close>: both tensors have the same number of dimensions (a
  0-dimensional tensor counts as 1-dimensional), the index is no larger than the input in
  every dimension but the last, and every index value lies in \<open>[0, input.size(-1))\<close>. The
  result has the shape of the index.
\<close>

definition torch_gather :: "'a tensor \<Rightarrow> int tensor \<Rightarrow> error + 'a tensor" where
  "torch_gather inp index =
    (let si = (if shape inp = [] then [1] else shape inp);
         sx = (if shape index = [] then [1] else shape index)
     in if length si \<noteq> length sx then Inl RuntimeError
        else if \<not> list_all2 (\<lambda>x i. x \<le> i) (butlast sx) (butlast si) then Inl RuntimeError
        else if \<exists>v \<in> set (elems index). v < 0 \<or> int (last si) \<le> v then Inl RuntimeError
        else Inr \<lparr>shape = shape index,
                  elems = map (\<lambda>k. elems inp !
                                  ravel si (butlast (unravel sx k) @ [nat (elems index ! k)]))
                              [0..<prod_list sx]\<rparr>)"

text \<open>\<^verbatim>\<open>torch.ones(size)\<close>: a negative size raises.\<close>

definition torch_ones :: "int list \<Rightarrow> error + 'a::one tensor" where
  "torch_ones dims =
    (if \<exists>d \<in> set dims. d < 0 then Inl RuntimeError
     else Inr \<lparr>shape = map nat dims, elems = replicate (prod_list (map nat dims)) 1\<rparr>)"

text \<open>\<^verbatim>\<open>torch.unique(t).tolist()\<close>: the distinct values, sorted.\<close>

definition torch_unique :: "int tensor \<Rightarrow> int list" where
  "torch_unique t = sort (remdups (elems t))"

text \<open>
  \<^verbatim>\<open>torch.cat([x, y])\<close> along dimension 0: the tensors agree in all other dimensions; a
  0-dimensional tensor cannot be concatenated; a 1-dimensional empty tensor is skipped.
\<close>

definition torch_cat :: "'a tensor \<Rightarrow> 'a tensor \<Rightarrow> error + 'a tensor" where
  "torch_cat x y =
    (if shape x = [0] then Inr y
     else if shape y = [0] then Inr x
     else if shape x = [] \<or> shape y = [] then Inl RuntimeError
     else if tl (shape x) \<noteq> tl (shape y) then Inl RuntimeError
     else Inr \<lparr>shape = (hd (shape x) + hd (shape y)) # tl (shape x),
               elems = elems x @ elems y\<rparr>)"

text \<open>Elementwise arithmetic with broadcasting (shapes aligned from the right).\<close>

definition broadcast_shapes :: "nat list \<Rightarrow> nat list \<Rightarrow> nat list option" where
  "broadcast_shapes s1 s2 =
    (let r = max (length s1) (length s2);
         p1 = replicate (r - length s1) 1 @ s1;
         p2 = replicate (r - length s2) 1 @ s2
     in if list_all2 (\<lambda>a b. a = b \<or> a = 1 \<or> b = 1) p1 p2
        then Some (map2 (\<lambda>a b. if a = 1 then b else a) p1 p2)
        else None)"

definition tensor_binop ::
  "('a \<Rightarrow> 'a \<Rightarrow> 'a) \<Rightarrow> 'a tensor \<Rightarrow> 'a tensor \<Rightarrow> error + 'a tensor" where
  "tensor_binop f x y =
    (case broadcast_shapes (shape x) (shape y) of
       None \<Rightarrow> Inl RuntimeError
     | Some s \<Rightarrow>
         ebind (tensor_expand x s) (\<lambda>x'.
         ebind (tensor_expand y s) (\<lambda>y'.
         Inr \<lparr>shape = s, elems = map2 f (elems x') (elems y')\<rparr>)))"

text \<open>\<^verbatim>\<open>t[0]\<close>: the first slice along dimension 0.\<close>

definition select0 :: "'a tensor \<Rightarrow> error + 'a tensor" where
  "select0 t =
    (case shape t of
       [] \<Rightarrow> Inl IndexError
     | d # ds \<Rightarrow>
         if d = 0 then Inl IndexError
         else Inr \<lparr>shape = ds, elems = take (prod_list ds) (elems t)\<rparr>)"

text \<open>
  \<^verbatim>\<open>row[index]\<close> with an integer index tensor: the slices of \<open>row\<close> along dimension 0
  selected by the values of \<open>index\<close>; a negative value counts from the end; a value outside
  \<open>[-d, d)\<close> raises.
\<close>

definition index_by_tensor :: "'a tensor \<Rightarrow> int tensor \<Rightarrow> error + 'a tensor" where
  "index_by_tensor row index =
    (case shape row of
       [] \<Rightarrow> Inl IndexError
     | d # ds \<Rightarrow>
         if \<exists>v \<in> set (elems index). v < - int d \<or> int d \<le> v then Inl IndexError
         else Inr \<lparr>shape = shape index @ ds,
                   elems = concat (map (\<lambda>v. take (prod_list ds)
                                          (drop (nat (if v < 0 then v + int d else v) * prod_list ds)
                                                (elems row)))
                                       (elems index))\<rparr>)"

text \<open>Iterating over a tensor yields its slices along dimension 0.\<close>

definition tensor_rows :: "'a tensor \<Rightarrow> error + 'a tensor list" where
  "tensor_rows t =
    (case shape t of
       [] \<Rightarrow> Inl TypeError
     | d # ds \<Rightarrow>
         Inr (map (\<lambda>i. \<lparr>shape = ds,
                          elems = take (prod_list ds) (drop (i * prod_list ds) (elems t))\<rparr>)
                  [0..<d]))"

subsection \<open>Python values, roles, batches\<close>

text \<open>
  \<^verbatim>\<open>class InputRole: need_attr = 0; need_forward = 1; no_forward = 2\<close>. Roles are plain
  integers in the code; any other integer is neither \<open>need_attr\<close> nor \<open>no_forward\<close>.
\<close>

definition need_attr :: int where "need_attr = 0"
definition need_forward :: int where "need_forward = 1"
definition no_forward :: int where "no_forward = 2"

text \<open>
  The values that flow through the code without being inspected: \<open>None\<close>, a number, a
  tensor, or any other object (labels, dictionaries used as accumulators, ...).
\<close>

datatype ('a, 'o) pyval = PNone | PNum 'a | PTensor "'a tensor" | PObj 'o

text \<open>
  What the data source yields: a tuple, a list (\<^verbatim>\<open>type(inputs) is list\<close>), or anything
  else (\<^verbatim>\<open>type(inputs) is not tuple\<close>), typically a single tensor.
\<close>

datatype ('a, 'o) batch =
  BTuple "('a, 'o) pyval list" | BList "('a, 'o) pyval list" | BSingle "('a, 'o) pyval"

text \<open>An optional argument that is \<open>None\<close>, one value, or a tuple of values.\<close>

datatype 'x py_arg = Omitted | Single 'x | Several "'x list"

text \<open>The call log: every call of a user callback with its arguments, in order.\<close>

datatype ('a, 'o) call =
    ForwardCall "('a, 'o) pyval list"
  | ReduceCall "('a, 'o) pyval" "('a, 'o) pyval" "('a, 'o) pyval list"
  | ToMetricCall "('a, 'o) pyval"

type_synonym ('a, 'o) forward_fn = "('a, 'o) pyval list \<Rightarrow> error + ('a, 'o) pyval"
type_synonym ('a, 'o) reduce_fn =
  "('a, 'o) pyval \<Rightarrow> ('a, 'o) pyval \<Rightarrow> ('a, 'o) pyval list \<Rightarrow> error + ('a, 'o) pyval"
type_synonym ('a, 'o) metric_fn = "('a, 'o) pyval \<Rightarrow> error + ('a, 'o) pyval"

text \<open>
  One pass: the forward function the black-box algorithm calls back with a perturbation
  pattern. The black box receives that function and the feature-indicator input, and returns
  the callback calls it caused and its attribution tensor.
\<close>

type_synonym ('a, 'o) pass_fn = "'a tensor \<Rightarrow> ('a, 'o) call list \<times> (error + ('a, 'o) pyval)"
type_synonym ('a, 'o) black_box =
  "('a, 'o) pass_fn \<Rightarrow> 'a tensor \<Rightarrow> ('a, 'o) call list \<times> (error + 'a tensor)"

text \<open>
  Python arithmetic \<^verbatim>\<open>x op y\<close> on numbers and tensors; \<open>None\<close> and other objects raise
  \<^verbatim>\<open>TypeError\<close>.
\<close>

fun py_binop ::
  "('a \<Rightarrow> 'a \<Rightarrow> 'a) \<Rightarrow> ('a, 'o) pyval \<Rightarrow> ('a, 'o) pyval \<Rightarrow> error + ('a, 'o) pyval" where
  "py_binop f (PNum a) (PNum b) = Inr (PNum (f a b))"
| "py_binop f (PNum a) (PTensor y) = Inr (PTensor (y\<lparr>elems := map (f a) (elems y)\<rparr>))"
| "py_binop f (PTensor x) (PNum b) = Inr (PTensor (x\<lparr>elems := map (\<lambda>a. f a b) (elems x)\<rparr>))"
| "py_binop f (PTensor x) (PTensor y) = ebind (tensor_binop f x y) (\<lambda>z. Inr (PTensor z))"
| "py_binop f _ _ = Inl TypeError"

subsection \<open>The default reducer (lines 30-32)\<close>

text \<open>
  \<^verbatim>\<open>def _concat_tensors(accum, cur_output, _):
      return cur_output if accum is None else torch.cat([accum, cur_output])\<close>
\<close>

fun concat_tensors :: "('a, 'o) reduce_fn" where
  "concat_tensors PNone cur_output _ = Inr cur_output"
| "concat_tensors (PTensor accum) (PTensor cur_output) _ =
     ebind (torch_cat accum cur_output) (\<lambda>t. Inr (PTensor t))"
| "concat_tensors _ _ _ = Inl TypeError"

subsection \<open>Output reconstruction (lines 35-73)\<close>

text \<open>The body of the loop of \<^verbatim>\<open>_convert_output_shape\<close> for one input and its mask.\<close>

definition convert_one :: "'a tensor \<Rightarrow> 'b tensor \<Rightarrow> int tensor \<Rightarrow> error + 'a tensor" where
  "convert_one unique_attr inp each_mask =
    (let output_dims = butlast (shape unique_attr);
         n_features = last (shape unique_attr);
         attr_shape = output_dims @ tl (shape inp)
     in case tensor_expand each_mask attr_shape of
          Inl e \<Rightarrow> Inl e
        | Inr expanded_feature_indices \<Rightarrow>
            (case (if 2 < length (shape inp)
                   then let extra_inp_dims = butlast (tl (shape inp));
                            n_extra_dims = length extra_inp_dims;
                            unsqueezed_shape = output_dims @ replicate n_extra_dims 1 @ [n_features];
                            expanded_shape = output_dims @ extra_inp_dims @ [n_features]
                        in (case tensor_reshape unique_attr unsqueezed_shape of
                              Inl e \<Rightarrow> Inl e
                            | Inr u \<Rightarrow> tensor_expand u expanded_shape)
                   else Inr unique_attr) of
               Inl e \<Rightarrow> Inl e
             | Inr expanded_unqiue_attr \<Rightarrow>
                 torch_gather expanded_unqiue_attr expanded_feature_indices))"

text \<open>The loop over \<^verbatim>\<open>zip(attr_inputs, feature_mask)\<close>; \<^verbatim>\<open>inp.shape\<close> needs a tensor.\<close>

fun convert_loop ::
  "'a tensor \<Rightarrow> (('b, 'o) pyval \<times> int tensor) list \<Rightarrow> error + 'a tensor list" where
  "convert_loop unique_attr [] = Inr []"
| "convert_loop unique_attr ((PTensor inp, each_mask) # rest) =
    ebind (convert_one unique_attr inp each_mask) (\<lambda>inp_attr.
    cons_ok inp_attr (convert_loop unique_attr rest))"
| "convert_loop unique_attr (_ # rest) = Inl AttributeError"

text \<open>\<^verbatim>\<open>unique_attr.shape[-1]\<close> raises on a 0-dimensional tensor, before the loop.\<close>

definition convert_output_shape ::
  "'a tensor \<Rightarrow> ('b, 'o) pyval list \<Rightarrow> int tensor list \<Rightarrow> error + 'a tensor list" where
  "convert_output_shape unique_attr attr_inps feature_mask =
    (if shape unique_attr = [] then Inl IndexError
     else convert_loop unique_attr (zip attr_inps feature_mask))"

subsection \<open>The constructor (lines 27, 89-106)\<close>

text \<open>
  The class of an attribution method: \<^verbatim>\<open>FeatureAblation\<close> or any other class.
  \<^verbatim>\<open>type(attr_method) in SUPPORTED_METHODS\<close> compares the exact class.
\<close>

datatype attr_class = FeatureAblation | OtherAttribution string

definition SUPPORTED_METHODS :: "attr_class set" where
  "SUPPORTED_METHODS = {FeatureAblation}"

record ('a, 'o) attribution_method =
  method_class :: attr_class
  method_forward_func :: "('a, 'o) forward_fn"
  method_attribute :: "('a, 'o) black_box"

text \<open>
  The wrapper keeps the user's forward function and a copy of the method. The copy's forward
  function is \<^verbatim>\<open>self._forward_with_dataloader\<close>: the model hands that function to
  \<open>method_attribute\<close> at the call (see \<open>black_box_run\<close>).
\<close>

record ('a, 'o) dataloader_attribution =
  forward_func :: "('a, 'o) forward_fn"
  attr_method :: "('a, 'o) attribution_method"

definition init ::
  "('a, 'o) attribution_method \<Rightarrow> error + ('a, 'o) dataloader_attribution" where
  "init attr_method_arg =
    (if method_class attr_method_arg \<in> SUPPORTED_METHODS
     then Inr \<lparr>forward_func = method_forward_func attr_method_arg,
               attr_method = attr_method_arg\<rparr>
     else Inl (AssertionError UnsupportedMethod))"

subsection \<open>The per-pass forward function (lines 108-180)\<close>

text \<open>\<^verbatim>\<open>defaultdict(list)\<close>: a missing key reads as the empty list.\<close>

definition defaultdict_get :: "(int \<rightharpoonup> nat list) \<Rightarrow> int \<Rightarrow> nat list" where
  "defaultdict_get d k = (case d k of None \<Rightarrow> [] | Some v \<Rightarrow> v)"

text \<open>
  The indices \<open>i\<close> of \<^verbatim>\<open>enumerate(perturbed_feature_indices[0].tolist())\<close> with
  \<^verbatim>\<open>not v\<close>. For a 1-dimensional row \<open>v\<close> is a number and \<^verbatim>\<open>not v\<close> means \<open>v = 0\<close>;
  for a row of higher rank \<open>v\<close> is a list, falsy when empty; a 0-dimensional row is not
  iterable.
\<close>

definition zeroed_features :: "'a::zero tensor \<Rightarrow> error + nat list" where
  "zeroed_features row =
    (case shape row of
       [] \<Rightarrow> Inl TypeError
     | [n] \<Rightarrow> Inr (filter (\<lambda>i. elems row ! i = 0) [0..<n])
     | n # d # _ \<Rightarrow> Inr (if d = 0 then [0..<n] else []))"

text \<open>Lines 122-126: the set of mask indices that need perturbation.\<close>

definition perturbation_mask_indices :: "(int \<rightharpoonup> nat list) \<Rightarrow> nat list \<Rightarrow> nat set" where
  "perturbation_mask_indices feature_idx_to_mask_idx zeroed =
     foldl (\<lambda>s i. s \<union> set (defaultdict_get feature_idx_to_mask_idx (int i))) {} zeroed"

text \<open>Lines 129-134: the binary mask of every input, \<open>None\<close> where none is needed.\<close>

fun build_perturbation_mask ::
  "'a tensor \<Rightarrow> nat set \<Rightarrow> (nat \<times> int tensor) list \<Rightarrow> error + 'a tensor option list" where
  "build_perturbation_mask row pmi [] = Inr []"
| "build_perturbation_mask row pmi ((i, mask_elem) # rest) =
     (if i \<in> pmi
      then ebind (index_by_tensor row mask_elem) (\<lambda>m.
           cons_ok (Some m) (build_perturbation_mask row pmi rest))
      else cons_ok None (build_perturbation_mask row pmi rest))"

definition pass_masks ::
  "'a::zero tensor \<Rightarrow> int tensor list \<Rightarrow> (int \<rightharpoonup> nat list) \<Rightarrow> error + 'a tensor option list" where
  "pass_masks perturbed_feature_indices feature_mask feature_idx_to_mask_idx =
     ebind (select0 perturbed_feature_indices) (\<lambda>row.
     ebind (zeroed_features row) (\<lambda>zeroed.
     build_perturbation_mask row (perturbation_mask_indices feature_idx_to_mask_idx zeroed)
       (zip [0..<length feature_mask] feature_mask)))"

text \<open>Line 154: \<^verbatim>\<open>inp * pert_mask + baseline * (1 - pert_mask)\<close>.\<close>

definition perturbed_inp ::
  "('a::ring_1, 'o) pyval \<Rightarrow> 'a tensor \<Rightarrow> ('a, 'o) pyval \<Rightarrow> error + ('a, 'o) pyval" where
  "perturbed_inp inp pert_mask baseline =
     ebind (py_binop (*) inp (PTensor pert_mask)) (\<lambda>kept.
     ebind (py_binop (-) (PNum 1) (PTensor pert_mask)) (\<lambda>dropped.
     ebind (py_binop (*) baseline dropped) (\<lambda>filled.
     py_binop (+) kept filled)))"

text \<open>Lines 138-157: the loop over \<^verbatim>\<open>zip(inputs, input_roles)\<close> with its counter.\<close>

fun perturb_loop ::
  "'a::ring_1 tensor option list \<Rightarrow> ('a, 'o) pyval list \<Rightarrow> (('a, 'o) pyval \<times> int) list \<Rightarrow> nat
   \<Rightarrow> error + ('a, 'o) pyval list" where
  "perturb_loop perturbation_mask baselines [] attr_inp_count = Inr []"
| "perturb_loop perturbation_mask baselines ((inp, role) # rest) attr_inp_count =
     (if role \<noteq> need_attr
      then cons_ok inp (perturb_loop perturbation_mask baselines rest attr_inp_count)
      else if length perturbation_mask \<le> attr_inp_count then Inl IndexError
      else (case perturbation_mask ! attr_inp_count of
              None \<Rightarrow>
                cons_ok inp (perturb_loop perturbation_mask baselines rest (attr_inp_count + 1))
            | Some pert_mask \<Rightarrow>
                if length baselines \<le> attr_inp_count then Inl IndexError
                else ebind (perturbed_inp inp pert_mask (baselines ! attr_inp_count)) (\<lambda>p.
                     cons_ok p
                       (perturb_loop perturbation_mask baselines rest (attr_inp_count + 1)))))"

text \<open>
  Iterating over a batch: the elements of a tuple or list; the rows of a tensor (the loop does
  not wrap a single tensor into a tuple); anything else is taken as not iterable.
\<close>

definition iter_batch :: "('a, 'o) batch \<Rightarrow> error + ('a, 'o) pyval list" where
  "iter_batch inputs =
    (case inputs of
       BTuple xs \<Rightarrow> Inr xs
     | BList xs \<Rightarrow> Inr xs
     | BSingle (PTensor t) \<Rightarrow> ebind (tensor_rows t) (\<lambda>rows. Inr (map PTensor rows))
     | BSingle _ \<Rightarrow> Inl TypeError)"

definition perturb_batch ::
  "'a::ring_1 tensor option list \<Rightarrow> ('a, 'o) pyval list \<Rightarrow> int list \<Rightarrow> ('a, 'o) batch
   \<Rightarrow> error + ('a, 'o) pyval list" where
  "perturb_batch perturbation_mask baselines input_roles inputs =
     ebind (iter_batch inputs) (\<lambda>elts.
     perturb_loop perturbation_mask baselines (zip elts input_roles) 0)"

text \<open>Lines 164-168: the positions handed to the forward function.\<close>

definition forward_inputs_of :: "('a, 'o) pyval list \<Rightarrow> int list \<Rightarrow> ('a, 'o) pyval list" where
  "forward_inputs_of perturbed_inputs input_roles =
     map fst (filter (\<lambda>(_, role). role \<noteq> no_forward) (zip perturbed_inputs input_roles))"

text \<open>
  Modelled from the spec: \<^verbatim>\<open>_run_forward\<close> of \<^verbatim>\<open>captum._utils.common\<close> is not among the
  sources. The spec says "Invoke the forward function" with the included positions "as an
  argument to the forward function".
\<close>

definition run_forward :: "('a, 'o) forward_fn \<Rightarrow> ('a, 'o) pyval list \<Rightarrow> error + ('a, 'o) pyval" where
  "run_forward forward_fn inputs = forward_fn inputs"

text \<open>Lines 136-175: the loop over the data source, with the call log.\<close>

fun traverse ::
  "('a::ring_1, 'o) forward_fn \<Rightarrow> int list \<Rightarrow> ('a, 'o) pyval list \<Rightarrow> 'a tensor option list \<Rightarrow>
   ('a, 'o) reduce_fn \<Rightarrow> ('a, 'o) pyval \<Rightarrow> ('a, 'o) batch list \<Rightarrow>
   ('a, 'o) call list \<times> (error + ('a, 'o) pyval)" where
  "traverse forward_fn input_roles baselines pm reduce accum [] = ([], Inr accum)"
| "traverse forward_fn input_roles baselines pm reduce accum (inputs # rest) =
    (case perturb_batch pm baselines input_roles inputs of
       Inl e \<Rightarrow> ([], Inl e)
     | Inr perturbed_inputs \<Rightarrow>
        (let forward_inputs = forward_inputs_of perturbed_inputs input_roles in
         case run_forward forward_fn forward_inputs of
           Inl e \<Rightarrow> ([ForwardCall forward_inputs], Inl e)
         | Inr output \<Rightarrow>
            (case reduce accum output perturbed_inputs of
               Inl e \<Rightarrow>
                 ([ForwardCall forward_inputs, ReduceCall accum output perturbed_inputs], Inl e)
             | Inr accum' \<Rightarrow>
                (case traverse forward_fn input_roles baselines pm reduce accum' rest of
                   (log, r) \<Rightarrow>
                     (ForwardCall forward_inputs # ReduceCall accum output perturbed_inputs # log,
                      r)))))"

definition forward_with_dataloader ::
  "('a::ring_1, 'o) forward_fn \<Rightarrow> 'a tensor \<Rightarrow> ('a, 'o) batch list \<Rightarrow> int list \<Rightarrow>
   ('a, 'o) pyval list \<Rightarrow> int tensor list \<Rightarrow> ('a, 'o) reduce_fn \<Rightarrow> ('a, 'o) metric_fn option \<Rightarrow>
   int \<Rightarrow> bool \<Rightarrow> (int \<rightharpoonup> nat list) \<Rightarrow> ('a, 'o) call list \<times> (error + ('a, 'o) pyval)" where
  "forward_with_dataloader forward_fn perturbed_feature_indices dataloader input_roles baselines
     feature_mask reduce to_metric perturbation_per_pass show_progress feature_idx_to_mask_idx =
    (case pass_masks perturbed_feature_indices feature_mask feature_idx_to_mask_idx of
       Inl e \<Rightarrow> ([], Inl e)
     | Inr pm \<Rightarrow>
        (case traverse forward_fn input_roles baselines pm reduce PNone dataloader of
           (log, Inl e) \<Rightarrow> (log, Inl e)
         | (log, Inr accum) \<Rightarrow>
            (case to_metric of
               None \<Rightarrow> (log, Inr accum)
             | Some f \<Rightarrow> (log @ [ToMetricCall accum], f accum))))"

subsection \<open>The public operation (lines 182-377)\<close>

datatype 'a attr_result = SingleTensor "'a tensor" | TensorTuple "'a tensor list"

text \<open>\<^verbatim>\<open>next(iter(dataloader))\<close>: the first batch; an empty source raises.\<close>

definition next_iter :: "'x list \<Rightarrow> error + 'x" where
  "next_iter dataloader = (case dataloader of [] \<Rightarrow> Inl StopIteration | x # _ \<Rightarrow> Inr x)"

text \<open>
  Modelled from the spec: \<^verbatim>\<open>_format_tensor_into_tuples\<close> of \<^verbatim>\<open>captum._utils.common\<close> is
  not among the sources. The spec speaks of "non-tuple elements (a single tensor)": a tensor
  is wrapped into a one-element tuple, anything else is rejected.
\<close>

definition format_tensor_into_tuples :: "('a, 'o) pyval \<Rightarrow> error + ('a, 'o) pyval list" where
  "format_tensor_into_tuples inputs =
    (case inputs of PTensor t \<Rightarrow> Inr [PTensor t] | _ \<Rightarrow> Inl (AssertionError NotATensor))"

text \<open>
  Modelled from the spec: \<^verbatim>\<open>_format_baseline\<close> of \<^verbatim>\<open>captum._utils.common\<close> is not among
  the sources. The spec: baselines are "per-input scalar or broadcastable tensor, default
  zero"; a single value stands for a one-element tuple.
\<close>

definition format_baseline ::
  "('a::zero, 'o) pyval py_arg \<Rightarrow> ('a, 'o) pyval list \<Rightarrow> ('a, 'o) pyval list" where
  "format_baseline baselines inputs =
    (case baselines of
       Omitted \<Rightarrow> map (\<lambda>_. PNum 0) inputs
     | Single b \<Rightarrow> [b]
     | Several bs \<Rightarrow> bs)"

text \<open>
  Modelled from the spec: \<^verbatim>\<open>_format_feature_mask\<close> of \<^verbatim>\<open>captum._utils.common\<close> is not
  among the sources. The spec: "If feature masks are omitted, default to each element is its
  own feature, indices assigned in input order", each mask with "batch dimension fixed to
  size 1"; a single tensor stands for a one-element tuple.
\<close>

fun default_feature_mask :: "('a, 'o) pyval list \<Rightarrow> nat \<Rightarrow> error + int tensor list" where
  "default_feature_mask [] current_num_features = Inr []"
| "default_feature_mask (PTensor inp # rest) current_num_features =
    (case shape inp of
       [] \<Rightarrow> Inl IndexError
     | b # fd \<Rightarrow>
         cons_ok \<lparr>shape = 1 # fd,
                  elems = map int [current_num_features..<current_num_features + prod_list fd]\<rparr>
           (default_feature_mask rest (current_num_features + prod_list fd)))"
| "default_feature_mask (_ # rest) current_num_features = Inl AttributeError"

definition format_feature_mask ::
  "int tensor py_arg \<Rightarrow> ('a, 'o) pyval list \<Rightarrow> error + int tensor list" where
  "format_feature_mask feature_mask inputs =
    (case feature_mask of
       Omitted \<Rightarrow> default_feature_mask inputs 0
     | Single m \<Rightarrow> Inr [m]
     | Several ms \<Rightarrow> Inr ms)"

text \<open>
  Modelled from the spec: \<^verbatim>\<open>_get_max_feature_index\<close> of \<^verbatim>\<open>captum._utils.common\<close> is not
  among the sources. The spec: "the maximum value seen across all masks"; with no value at
  all there is no maximum.
\<close>

definition get_max_feature_index :: "int tensor list \<Rightarrow> error + int" where
  "get_max_feature_index feature_mask =
    (if concat (map elems feature_mask) = [] then Inl ValueError
     else Inr (Max (set (concat (map elems feature_mask)))))"

text \<open>
  Modelled from the spec: \<^verbatim>\<open>_format_output\<close> of \<^verbatim>\<open>captum._utils.common\<close> is not among
  the sources. The spec: "If the original data source yielded non-tuple elements (a single
  tensor) the result is returned as a single tensor rather than a one-element tuple;
  otherwise a tuple matching the order of attributable inputs is returned."
\<close>

definition format_output :: "bool \<Rightarrow> 'a tensor list \<Rightarrow> error + 'a attr_result" where
  "format_output is_tuple attr =
    (if is_tuple then Inr (TensorTuple attr)
     else (case attr of
             [t] \<Rightarrow> Inr (SingleTensor t)
           | _ \<Rightarrow> Inl (AssertionError OutputNotSingle)))"

text \<open>Lines 273-281: the first batch as a tuple, and whether it was one.\<close>

definition format_inputs :: "('a, 'o) batch \<Rightarrow> error + (('a, 'o) pyval list \<times> bool)" where
  "format_inputs first =
    (case first of
       BList xs \<Rightarrow> Inr (xs, True)
     | BTuple xs \<Rightarrow> Inr (xs, True)
     | BSingle x \<Rightarrow> ebind (format_tensor_into_tuples x) (\<lambda>xs. Inr (xs, False)))"

text \<open>
  Lines 283-296: \<^verbatim>\<open>if input_roles:\<close> is false for \<open>None\<close> and for the empty tuple; then
  every element needs attribution.
\<close>

definition resolve_roles :: "int list option \<Rightarrow> ('a, 'o) pyval list \<Rightarrow> error + int list" where
  "resolve_roles input_roles inputs =
    (case input_roles of
       None \<Rightarrow> Inr (map (\<lambda>_. need_attr) inputs)
     | Some rs \<Rightarrow>
         if rs \<noteq> []
         then ebind (py_assert (length rs = length inputs) RolesLength) (\<lambda>_.
              ebind (py_assert (\<exists>role \<in> set rs. role = need_attr) NoAttrRole) (\<lambda>_.
              Inr rs))
         else Inr (map (\<lambda>_. need_attr) inputs))"

text \<open>Lines 298-300.\<close>

definition attr_inputs_of :: "int list \<Rightarrow> ('a, 'o) pyval list \<Rightarrow> ('a, 'o) pyval list" where
  "attr_inputs_of input_roles inputs =
     map snd (filter (\<lambda>(role, inp). role = need_attr) (zip input_roles inputs))"

text \<open>Lines 311-318: \<^verbatim>\<open>baseline.size(0)\<close> raises on a 0-dimensional tensor.\<close>

fun check_baselines :: "nat \<Rightarrow> ('a, 'o) pyval list \<Rightarrow> error + unit" where
  "check_baselines i [] = Inr ()"
| "check_baselines i (PTensor baseline # rest) =
    (case shape baseline of
       [] \<Rightarrow> Inl IndexError
     | d # _ \<Rightarrow>
         if d = 1 then check_baselines (i + 1) rest
         else Inl (AssertionError (BaselineBatchDim i)))"
| "check_baselines i (_ # rest) = check_baselines (i + 1) rest"

text \<open>Lines 329-334.\<close>

fun check_masks :: "nat \<Rightarrow> int tensor list \<Rightarrow> error + unit" where
  "check_masks i [] = Inr ()"
| "check_masks i (each_mask # rest) =
    (case shape each_mask of
       [] \<Rightarrow> Inl IndexError
     | d # _ \<Rightarrow>
         if d = 1 then check_masks (i + 1) rest
         else Inl (AssertionError (MaskBatchDim i)))"

text \<open>
  Lines 337-341: for the mask at position \<open>i\<close>, append \<open>i\<close> to the entry of each of its
  distinct values.
\<close>

definition add_mask :: "(int \<rightharpoonup> nat list) \<Rightarrow> nat \<times> int tensor \<Rightarrow> (int \<rightharpoonup> nat list)" where
  "add_mask d im =
     foldl (\<lambda>d feature_idx. d(feature_idx \<mapsto> defaultdict_get d feature_idx @ [fst im]))
           d (torch_unique (snd im))"

definition build_feature_idx_to_mask_idx :: "int tensor list \<Rightarrow> (int \<rightharpoonup> nat list)" where
  "build_feature_idx_to_mask_idx feature_mask =
     foldl add_mask Map.empty (zip [0..<length feature_mask] feature_mask)"

text \<open>\<^verbatim>\<open>attr_inputs[0].device\<close> (line 350).\<close>

definition first_device :: "('a, 'o) pyval list \<Rightarrow> error + unit" where
  "first_device inputs =
    (case inputs of
       [] \<Rightarrow> Inl IndexError
     | PTensor _ # _ \<Rightarrow> Inr ()
     | _ # _ \<Rightarrow> Inl AttributeError)"

text \<open>
  Everything \<^verbatim>\<open>attribute\<close> computes before it calls the attribution method (lines
  273-350), collected in a record.
\<close>

record ('a, 'o) prepared =
  is_inputs_tuple :: bool
  roles :: "int list"
  attr_inputs :: "('a, 'o) pyval list"
  formatted_baselines :: "('a, 'o) pyval list"
  formatted_feature_mask :: "int tensor list"
  feature_idx_to_mask_idx :: "int \<rightharpoonup> nat list"
  n_features :: int
  feature_indices :: "'a tensor"

definition attribute_prepare ::
  "('a::ring_1, 'o) batch list \<Rightarrow> int list option \<Rightarrow> ('a, 'o) pyval py_arg \<Rightarrow> int tensor py_arg
   \<Rightarrow> error + ('a, 'o) prepared" where
  "attribute_prepare dataloader input_roles baselines feature_mask =
     ebind (next_iter dataloader) (\<lambda>first.
     ebind (format_inputs first) (\<lambda>(inputs, is_tuple).
     ebind (resolve_roles input_roles inputs) (\<lambda>input_roles'.
     let attr_inps = attr_inputs_of input_roles' inputs;
         baselines' = format_baseline baselines attr_inps in
     ebind (py_assert (length attr_inps = length baselines') BaselineCount) (\<lambda>_.
     ebind (check_baselines 0 baselines') (\<lambda>_.
     ebind (format_feature_mask feature_mask attr_inps) (\<lambda>feature_mask'.
     ebind (py_assert (length attr_inps = length feature_mask') MaskCount) (\<lambda>_.
     ebind (check_masks 0 feature_mask') (\<lambda>_.
     ebind (get_max_feature_index feature_mask') (\<lambda>max_feature_idx.
     ebind (first_device attr_inps) (\<lambda>_.
     ebind (torch_ones [1, max_feature_idx + 1]) (\<lambda>ones.
     Inr \<lparr>is_inputs_tuple = is_tuple,
          roles = input_roles',
          attr_inputs = attr_inps,
          formatted_baselines = baselines',
          formatted_feature_mask = feature_mask',
          feature_idx_to_mask_idx = build_feature_idx_to_mask_idx feature_mask',
          n_features = max_feature_idx + 1,
          feature_indices = ones\<rparr>)))))))))))"

text \<open>
  Lines 346-366: the call \<^verbatim>\<open>self.attr_method.attribute(feature_indices,
  additional_forward_args=(...))\<close>. The method's forward function is
  \<^verbatim>\<open>_forward_with_dataloader\<close> with the additional arguments bound.
\<close>

definition black_box_run ::
  "('a::ring_1, 'o) dataloader_attribution \<Rightarrow> ('a, 'o) prepared \<Rightarrow> ('a, 'o) batch list \<Rightarrow>
   ('a, 'o) reduce_fn option \<Rightarrow> ('a, 'o) metric_fn option \<Rightarrow> int \<Rightarrow> bool \<Rightarrow>
   ('a, 'o) call list \<times> (error + 'a tensor)" where
  "black_box_run self cfg dataloader reduce to_metric perturbation_per_pass show_progress =
     method_attribute (attr_method self)
       (\<lambda>perturbed_feature_indices.
          forward_with_dataloader (forward_func self) perturbed_feature_indices
            dataloader (roles cfg) (formatted_baselines cfg) (formatted_feature_mask cfg)
            (case reduce of None \<Rightarrow> concat_tensors | Some r \<Rightarrow> r) to_metric
            perturbation_per_pass show_progress (feature_idx_to_mask_idx cfg))
       (feature_indices cfg)"

text \<open>
  The outcome of a call of \<^verbatim>\<open>attribute\<close>: the inputs of its calls of the attribution
  method, the callback calls those caused, and the value returned (or the exception).
\<close>

record ('a, 'o) outcome =
  black_box_calls :: "'a tensor list"
  call_log :: "('a, 'o) call list"
  result :: "error + 'a attr_result"

definition attribute ::
  "('a::ring_1, 'o) dataloader_attribution \<Rightarrow> ('a, 'o) batch list \<Rightarrow> int list option \<Rightarrow>
   ('a, 'o) pyval py_arg \<Rightarrow> int tensor py_arg \<Rightarrow> ('a, 'o) reduce_fn option \<Rightarrow>
   ('a, 'o) metric_fn option \<Rightarrow> int \<Rightarrow> bool \<Rightarrow> bool \<Rightarrow> ('a, 'o) outcome" where
  "attribute self dataloader input_roles baselines feature_mask reduce to_metric
     perturbation_per_pass show_progress return_input_shape =
    (case attribute_prepare dataloader input_roles baselines feature_mask of
       Inl e \<Rightarrow> \<lparr>black_box_calls = [], call_log = [], result = Inl e\<rparr>
     | Inr cfg \<Rightarrow>
        (case black_box_run self cfg dataloader reduce to_metric perturbation_per_pass
                show_progress of
           (log, unique_attr) \<Rightarrow>
             \<lparr>black_box_calls = [feature_indices cfg],
              call_log = log,
              result =
                ebind unique_attr (\<lambda>u.
                  if \<not> return_input_shape then Inr (SingleTensor u)
                  else ebind (convert_output_shape u (attr_inputs cfg)
                                (formatted_feature_mask cfg))
                         (format_output (is_inputs_tuple cfg)))\<rparr>))"

subsection \<open>Notions of the specification\<close>

text \<open>
  A mask fits an attributable input and a unique attribution tensor with \<open>n\<close> features: the
  input is a tensor of shape \<open>(batch, *feature_dims)\<close> with at least one feature dimension,
  the mask has shape \<open>(1, *feature_dims)\<close>, and its values are canonical feature indices in
  \<open>[0, n)\<close>.
\<close>

definition mask_fits :: "nat \<Rightarrow> ('b, 'o) pyval \<Rightarrow> int tensor \<Rightarrow> bool" where
  "mask_fits n x each_mask =
    (\<exists>inp. x = PTensor inp \<and> 2 \<le> length (shape inp) \<and>
           shape each_mask = 1 # tl (shape inp) \<and> wf_tensor each_mask \<and>
           (\<forall>v \<in> set (elems each_mask). 0 \<le> v \<and> v < int n))"

text \<open>
  A reconstructed attribution: shape \<open>(*output_dims, *feature_dims)\<close>, and at every position
  the entry of the unique attribution tensor at the feature index that the mask stores there.
\<close>

definition gathers ::
  "'a tensor \<Rightarrow> nat list \<Rightarrow> ('b, 'o) pyval \<Rightarrow> int tensor \<Rightarrow> 'a tensor \<Rightarrow> bool" where
  "gathers unique_attr output_dims x each_mask out =
    (\<forall>inp. x = PTensor inp \<longrightarrow>
       shape out = output_dims @ tl (shape inp) \<and>
       (\<forall>io jf. valid_index output_dims io \<and> valid_index (tl (shape inp)) jf \<longrightarrow>
          tensor_at out (io @ jf) =
          tensor_at unique_attr (io @ [nat (tensor_at each_mask (0 # jf))])))"

text \<open>The positions whose mask contains a feature index: the entry the index should hold.\<close>

definition masks_containing :: "int tensor list \<Rightarrow> int \<Rightarrow> nat list" where
  "masks_containing feature_mask f =
     filter (\<lambda>i. f \<in> set (elems (feature_mask ! i))) [0..<length feature_mask]"

text \<open>
  The configuration errors of the specification, for a first batch with the given elements:
  a non-empty role assignment of the wrong length or without an attributable role; a given
  tuple of baselines or masks whose length is not the number of attributable inputs; a baseline
  tensor or a mask whose first dimension is not 1.
\<close>

definition given :: "'x py_arg \<Rightarrow> 'x list" where
  "given arg = (case arg of Omitted \<Rightarrow> [] | Single x \<Rightarrow> [x] | Several xs \<Rightarrow> xs)"

definition effective_roles :: "int list option \<Rightarrow> nat \<Rightarrow> int list" where
  "effective_roles input_roles arity =
    (case input_roles of
       None \<Rightarrow> replicate arity need_attr
     | Some rs \<Rightarrow> if rs = [] then replicate arity need_attr else rs)"

definition bad_batch_dim :: "'x tensor \<Rightarrow> bool" where
  "bad_batch_dim t = (take 1 (shape t) \<noteq> [1])"

definition configuration_error ::
  "('a, 'o) pyval list \<Rightarrow> int list option \<Rightarrow> ('a, 'o) pyval py_arg \<Rightarrow> int tensor py_arg \<Rightarrow> bool" where
  "configuration_error inputs input_roles baselines feature_mask =
    (let n_attr = length (attr_inputs_of (effective_roles input_roles (length inputs)) inputs) in
     (\<exists>rs. input_roles = Some rs \<and> rs \<noteq> [] \<and> length rs \<noteq> length inputs) \<or>
     (\<exists>rs. input_roles = Some rs \<and> rs \<noteq> [] \<and> need_attr \<notin> set rs) \<or>
     (baselines \<noteq> Omitted \<and> length (given baselines) \<noteq> n_attr) \<or>
     (\<exists>t. PTensor t \<in> set (given baselines) \<and> bad_batch_dim t) \<or>
     (feature_mask \<noteq> Omitted \<and> length (given feature_mask) \<noteq> n_attr) \<or>
     (\<exists>m \<in> set (given feature_mask). bad_batch_dim m))"

text \<open>
  The tuple positions of a batch, and batches that are tuples (or lists) of a given arity.
\<close>

definition batch_elems :: "('a, 'o) batch \<Rightarrow> ('a, 'o) pyval list" where
  "batch_elems b = (case b of BTuple xs \<Rightarrow> xs | BList xs \<Rightarrow> xs | BSingle x \<Rightarrow> [x])"

definition is_tuple_of_arity :: "nat \<Rightarrow> ('a, 'o) batch \<Rightarrow> bool" where
  "is_tuple_of_arity n b = (\<exists>xs. (b = BTuple xs \<or> b = BList xs) \<and> length xs = n)"



text \<open>
  The number of attributable positions before position \<open>k\<close>: the index of that position's
  mask and baseline.
\<close>

definition attr_index :: "int list \<Rightarrow> nat \<Rightarrow> nat" where
  "attr_index input_roles k = length (filter (\<lambda>r. r = need_attr) (take k input_roles))"

text \<open>The calls of each callback in a call log, in order.\<close>

fun forward_calls :: "('a, 'o) call list \<Rightarrow> ('a, 'o) pyval list list" where
  "forward_calls [] = []"
| "forward_calls (ForwardCall xs # cs) = xs # forward_calls cs"
| "forward_calls (_ # cs) = forward_calls cs"

fun reduce_calls ::
  "('a, 'o) call list \<Rightarrow> (('a, 'o) pyval \<times> ('a, 'o) pyval \<times> ('a, 'o) pyval list) list" where
  "reduce_calls [] = []"
| "reduce_calls (ReduceCall a out ins # cs) = (a, out, ins) # reduce_calls cs"
| "reduce_calls (_ # cs) = reduce_calls cs"

fun metric_calls :: "('a, 'o) call list \<Rightarrow> ('a, 'o) pyval list" where
  "metric_calls [] = []"
| "metric_calls (ToMetricCall a # cs) = a # metric_calls cs"
| "metric_calls (_ # cs) = metric_calls cs"

definition reduce_inputs :: "('a, 'o) call list \<Rightarrow> ('a, 'o) pyval list list" where
  "reduce_inputs log = map (\<lambda>(a, out, ins). ins) (reduce_calls log)"

text \<open>
  The accumulator is threaded through a list of reduce calls: the first call receives the
  initial accumulator, every later call the value the call before it returned, and the last
  call returns the final accumulator.
\<close>

fun threaded ::
  "('a, 'o) reduce_fn \<Rightarrow> ('a, 'o) pyval \<Rightarrow>
   (('a, 'o) pyval \<times> ('a, 'o) pyval \<times> ('a, 'o) pyval list) list \<Rightarrow> ('a, 'o) pyval \<Rightarrow> bool" where
  "threaded reduce accum [] final = (final = accum)"
| "threaded reduce accum ((a, out, ins) # rest) final =
     (a = accum \<and>
      (case reduce a out ins of
         Inl e \<Rightarrow> False
       | Inr accum' \<Rightarrow> threaded reduce accum' rest final))"

subsection \<open>Example data\<close>

text \<open>
  A unique attribution tensor with two outputs and three features, and two attributable inputs:
  one with per-row shape \<open>(2, 2)\<close> and mask values \<open>0, 1, 2, 1\<close>, one with per-row
  shape \<open>(2)\<close> and mask values \<open>2, 2\<close>.
\<close>

definition ex_unique :: "int tensor" where
  "ex_unique = \<lparr>shape = [2, 3], elems = [10, 11, 12, 20, 21, 22]\<rparr>"

definition ex_inps :: "(int, unit) pyval list" where
  "ex_inps = [PTensor \<lparr>shape = [5, 2, 2], elems = replicate 20 0\<rparr>,
              PTensor \<lparr>shape = [5, 2], elems = replicate 10 0\<rparr>]"

definition ex_masks :: "int tensor list" where
  "ex_masks = [\<lparr>shape = [1, 2, 2], elems = [0, 1, 2, 1]\<rparr>,
               \<lparr>shape = [1, 2], elems = [2, 2]\<rparr>]"

text \<open>A data source with one tuple batch of one tensor, and a mask that skips index 1.\<close>

definition ex_gap_loader :: "(int, unit) batch list" where
  "ex_gap_loader = [BTuple [PTensor \<lparr>shape = [2, 2], elems = [5, 6, 7, 8]\<rparr>]]"

definition ex_gap_mask :: "int tensor" where
  "ex_gap_mask = \<lparr>shape = [1, 2], elems = [0, 2]\<rparr>"

text \<open>An attribution method of an unsupported class.\<close>

definition ex_saliency :: "(int, unit) attribution_method" where
  "ex_saliency = \<lparr>method_class = OtherAttribution ''Saliency'',
                   method_forward_func = (\<lambda>xs. Inr PNone),
                   method_attribute = (\<lambda>f x. ([], Inl RuntimeError))\<rparr>"

text \<open>
  A forward function (the sum of all tensor elements it is given, as a one-element tensor), a
  to-metric transform (the sum of the accumulated tensor), and a small ablation method: one pass
  with the indicator as it is, one pass per feature with that feature set to 0, and the
  differences as attribution.
\<close>

definition ex_forward :: "(int, unit) forward_fn" where
  "ex_forward xs =
     Inr (PTensor \<lparr>shape = [1],
                   elems = [sum_list (concat (map (\<lambda>x. case x of PTensor t \<Rightarrow> elems t | _ \<Rightarrow> []) xs))]\<rparr>)"

definition ex_to_metric :: "(int, unit) metric_fn" where
  "ex_to_metric accum = (case accum of PTensor t \<Rightarrow> Inr (PNum (sum_list (elems t))) | _ \<Rightarrow> Inl TypeError)"

definition ex_ablation :: "(int, unit) black_box" where
  "ex_ablation f x =
    (let n = length (elems x);
         base = f x;
         runs = map (\<lambda>i. f (x\<lparr>elems := (elems x)[i := 0]\<rparr>)) [0..<n]
     in (fst base @ concat (map fst runs),
         case snd base of
           Inr (PNum b) \<Rightarrow>
             if list_all (\<lambda>r. case snd r of Inr (PNum v) \<Rightarrow> True | _ \<Rightarrow> False) runs
             then Inr \<lparr>shape = [1, n],
                       elems = map (\<lambda>r. case snd r of Inr (PNum v) \<Rightarrow> b - v | _ \<Rightarrow> 0) runs\<rparr>
             else Inl RuntimeError
         | _ \<Rightarrow> Inl RuntimeError))"

definition ex_self :: "(int, unit) dataloader_attribution" where
  "ex_self = \<lparr>forward_func = ex_forward,
              attr_method = \<lparr>method_class = FeatureAblation,
                             method_forward_func = ex_forward,
                             method_attribute = ex_ablation\<rparr>\<rparr>"

definition ex_loader :: "(int, unit) batch list" where
  "ex_loader =
    [BList [PTensor \<lparr>shape = [2, 2], elems = [1, 2, 3, 4]\<rparr>, PTensor \<lparr>shape = [2, 1], elems = [7, 8]\<rparr>],
     BList [PTensor \<lparr>shape = [1, 2], elems = [5, 6]\<rparr>, PTensor \<lparr>shape = [1, 1], elems = [9]\<rparr>]]"


text \<open>
  One pass over that data source: roles \<open>(0, 2)\<close>, baseline 10, mask values \<open>0, 1\<close>, and the
  pattern \<open>0, 1\<close> that zeroes feature 0; its call log; and what \<^verbatim>\<open>attribute\<close> prepares
  for the roles \<open>(0, 2)\<close> with default baselines and masks.
\<close>

definition ex_roles :: "int list" where "ex_roles = [0, 2]"
definition ex_pattern :: "int tensor" where "ex_pattern = \<lparr>shape = [1, 2], elems = [0, 1]\<rparr>"
definition ex_baselines :: "(int, unit) pyval list" where "ex_baselines = [PNum 10]"
definition ex_pass_masks :: "int tensor list" where
  "ex_pass_masks = [\<lparr>shape = [1, 2], elems = [0, 1]\<rparr>]"

definition ex_log :: "(int, unit) call list" where
  "ex_log =
    [ForwardCall [PTensor \<lparr>shape = [2, 2], elems = [10, 2, 10, 4]\<rparr>],
     ReduceCall PNone (PTensor \<lparr>shape = [1], elems = [26]\<rparr>)
       [PTensor \<lparr>shape = [2, 2], elems = [10, 2, 10, 4]\<rparr>,
        PTensor \<lparr>shape = [2, 1], elems = [7, 8]\<rparr>],
     ForwardCall [PTensor \<lparr>shape = [1, 2], elems = [10, 6]\<rparr>],
     ReduceCall (PTensor \<lparr>shape = [1], elems = [26]\<rparr>) (PTensor \<lparr>shape = [1], elems = [16]\<rparr>)
       [PTensor \<lparr>shape = [1, 2], elems = [10, 6]\<rparr>,
        PTensor \<lparr>shape = [1, 1], elems = [9]\<rparr>],
     ToMetricCall (PTensor \<lparr>shape = [2], elems = [26, 16]\<rparr>)]"

definition ex_cfg :: "(int, unit) prepared" where
  "ex_cfg =
    \<lparr>is_inputs_tuple = True,
     roles = [0, 2],
     attr_inputs = [PTensor \<lparr>shape = [2, 2], elems = [1, 2, 3, 4]\<rparr>],
     formatted_baselines = [PNum 0],
     formatted_feature_mask = [\<lparr>shape = [1, 2], elems = [0, 1]\<rparr>],
     feature_idx_to_mask_idx = build_feature_idx_to_mask_idx [\<lparr>shape = [1, 2], elems = [0, 1]\<rparr>],
     n_features = 2,
     feature_indices = \<lparr>shape = [1, 2], elems = [1, 1]\<rparr>\<rparr>"

section \<open>Index arithmetic\<close>

lemma length_unravel [simp]: "length (unravel s k) = length s"
  by (induction s arbitrary: k) auto

lemma valid_index_length: "valid_index s idx \<Longrightarrow> length idx = length s"
  by (simp add: valid_index_def list_all2_lengthD)

lemma valid_index_Nil [simp]: "valid_index [] idx = (idx = [])"
  by (simp add: valid_index_def)

lemma valid_index_Cons [simp]:
  "valid_index (d # ds) (i # is) = (i < d \<and> valid_index ds is)"
  by (simp add: valid_index_def)

lemma valid_index_append:
  "length i1 = length s1 \<Longrightarrow>
   valid_index (s1 @ s2) (i1 @ i2) = (valid_index s1 i1 \<and> valid_index s2 i2)"
  by (simp add: valid_index_def list_all2_append)

lemma ravel_lt: "valid_index s idx \<Longrightarrow> ravel s idx < prod_list s"
  unfolding valid_index_def
proof (induction idx s rule: list_all2_induct)
  case Nil
  then show ?case by simp
next
  case (Cons i idx d s)
  have "i * prod_list s + ravel s idx < i * prod_list s + prod_list s"
    using Cons.IH by simp
  also have "\<dots> = Suc i * prod_list s" by simp
  also have "\<dots> \<le> d * prod_list s"
    using Cons.hyps(1) by (intro mult_le_mono1) simp
  finally show ?case by simp
qed

lemma unravel_ravel: "valid_index s idx \<Longrightarrow> unravel s (ravel s idx) = idx"
  unfolding valid_index_def
proof (induction idx s rule: list_all2_induct)
  case Nil
  then show ?case by simp
next
  case (Cons i idx d s)
  have r: "ravel s idx < prod_list s"
    using Cons.hyps(2) by (simp add: ravel_lt valid_index_def)
  then show ?case using Cons.IH by simp
qed

lemma unravel_valid: "k < prod_list s \<Longrightarrow> valid_index s (unravel s k)"
proof (induction s arbitrary: k)
  case Nil
  then show ?case by simp
next
  case (Cons d ds)
  from Cons.prems have pos: "0 < prod_list ds"
    by (cases "prod_list ds = 0") auto
  from Cons.prems have "k div prod_list ds < d"
    using pos by (simp add: less_mult_imp_div_less mult.commute)
  moreover have "k mod prod_list ds < prod_list ds" using pos by simp
  ultimately show ?case using Cons.IH by simp
qed

lemma ravel_unravel: "k < prod_list s \<Longrightarrow> ravel s (unravel s k) = k"
proof (induction s arbitrary: k)
  case Nil
  then show ?case by simp
next
  case (Cons d ds)
  from Cons.prems have pos: "0 < prod_list ds"
    by (cases "prod_list ds = 0") auto
  then have "ravel ds (unravel ds (k mod prod_list ds)) = k mod prod_list ds"
    by (intro Cons.IH) simp
  then show ?case by simp
qed

lemma ravel_append:
  "length i1 = length s1 \<Longrightarrow>
   ravel (s1 @ s2) (i1 @ i2) = ravel s1 i1 * prod_list s2 + ravel s2 i2"
  by (induction i1 s1 rule: list_induct2) (auto simp: algebra_simps)

lemma ravel_ones [simp]: "ravel (replicate m (Suc 0)) (replicate m 0) = 0"
  by (induction m) auto

lemma prod_list_ones [simp]: "prod_list (replicate m (Suc 0)) = Suc 0"
  by (induction m) auto

section \<open>Expanding and gathering\<close>

lemma broadcast_index_append:
  "length s1 = length i1 \<Longrightarrow>
   broadcast_index (s1 @ s2) (i1 @ i2) = broadcast_index s1 i1 @ broadcast_index s2 i2"
  by (simp add: broadcast_index_def)

lemma broadcast_index_same: "valid_index s idx \<Longrightarrow> broadcast_index s idx = idx"
  unfolding valid_index_def broadcast_index_def
  by (induction idx s rule: list_all2_induct) auto

lemma broadcast_index_ones:
  "length idx = m \<Longrightarrow> broadcast_index (replicate m (Suc 0)) idx = replicate m 0"
  by (induction m arbitrary: idx) (auto simp: broadcast_index_def length_Suc_conv)

lemma broadcast_index_valid:
  "list_all2 (\<lambda>d g. d = g \<or> d = 1) src tgt \<Longrightarrow> valid_index tgt idx \<Longrightarrow>
   valid_index src (broadcast_index src idx)"
proof (induction src tgt arbitrary: idx rule: list_all2_induct)
  case Nil
  then show ?case by (simp add: broadcast_index_def)
next
  case (Cons d src g tgt)
  from Cons.prems obtain i js where idx: "idx = i # js"
    by (cases idx) (auto simp: valid_index_def)
  with Cons.prems have "i < g" "valid_index tgt js" by auto
  with Cons.hyps(1) Cons.IH [of js] show ?case
    by (auto simp: idx broadcast_index_def)
qed

lemma tensor_expand_at:
  assumes "tensor_expand t tgt = Inr t'" and "valid_index tgt idx"
    and "src = replicate (length tgt - length (shape t)) 1 @ shape t"
  shows "tensor_at t' idx = elems t ! ravel src (broadcast_index src idx)"
proof -
  from assms(1,3) have t': "t' = \<lparr>shape = tgt,
      elems = map (\<lambda>k. elems t ! ravel src (broadcast_index src (unravel tgt k)))
                  [0..<prod_list tgt]\<rparr>"
    by (auto simp: tensor_expand_def Let_def split: if_splits)
  from assms(2) have "ravel tgt idx < prod_list tgt" by (rule ravel_lt)
  then show ?thesis
    using assms(2) by (simp add: t' tensor_at_def unravel_ravel)
qed

lemma tensor_expand_shape:
  assumes "tensor_expand t tgt = Inr t'"
  shows "shape t' = tgt" and "wf_tensor t'"
  using assms by (auto simp: tensor_expand_def Let_def wf_tensor_def split: if_splits)

lemma tensor_expand_elems:
  assumes "tensor_expand t tgt = Inr t'" and "wf_tensor t"
  shows "set (elems t') \<subseteq> set (elems t)"
proof
  fix x assume "x \<in> set (elems t')"
  define src where "src = replicate (length tgt - length (shape t)) 1 @ shape t"
  from assms(1) have t': "elems t' =
      map (\<lambda>k. elems t ! ravel src (broadcast_index src (unravel tgt k))) [0..<prod_list tgt]"
    and compat: "list_all2 (\<lambda>d g. d = g \<or> d = 1) src tgt"
    by (auto simp: tensor_expand_def Let_def src_def split: if_splits)
  from \<open>x \<in> set (elems t')\<close> obtain k where k: "k < prod_list tgt"
    and x: "x = elems t ! ravel src (broadcast_index src (unravel tgt k))"
    by (auto simp: t')
  from k have "valid_index tgt (unravel tgt k)" by (rule unravel_valid)
  with compat have "valid_index src (broadcast_index src (unravel tgt k))"
    by (rule broadcast_index_valid)
  then have "ravel src (broadcast_index src (unravel tgt k)) < prod_list src"
    by (rule ravel_lt)
  also have "prod_list src = length (elems t)"
    using assms(2) by (simp add: src_def wf_tensor_def)
  finally show "x \<in> set (elems t)" by (simp add: x)
qed

lemma torch_gather_at:
  assumes "torch_gather inp index = Inr out" and "shape index \<noteq> []"
    and ne: "shape inp \<noteq> []"
  shows "shape out = shape index" and "wf_tensor out"
    and "valid_index (shape index) idx \<Longrightarrow>
         tensor_at out idx =
         elems inp ! ravel (shape inp) (butlast idx @ [nat (tensor_at index idx)])"
proof -
  from assms have out: "out = \<lparr>shape = shape index,
      elems = map (\<lambda>k. elems inp !
                 ravel (shape inp) (butlast (unravel (shape index) k) @ [nat (elems index ! k)]))
               [0..<prod_list (shape index)]\<rparr>"
    by (auto simp: torch_gather_def Let_def split: if_splits)
  show "shape out = shape index" by (simp add: out)
  show "wf_tensor out" by (simp add: out wf_tensor_def)
  assume v: "valid_index (shape index) idx"
  then have "ravel (shape index) idx < prod_list (shape index)" by (rule ravel_lt)
  then show "tensor_at out idx =
         elems inp ! ravel (shape inp) (butlast idx @ [nat (tensor_at index idx)])"
    using v by (simp add: out tensor_at_def unravel_ravel)
qed

lemma expand_feature_mask:
  assumes sm: "shape mk = 1 # fd" and od: "od \<noteq> []"
  shows "\<exists>efi. tensor_expand mk (od @ fd) = Inr efi \<and> shape efi = od @ fd \<and>
           (\<forall>io jf. valid_index od io \<and> valid_index fd jf \<longrightarrow>
              tensor_at efi (io @ jf) = tensor_at mk (0 # jf))"
proof -
  define m where "m = length od"
  define src where "src = replicate (length (od @ fd) - length (shape mk)) 1 @ shape mk"
  from od have "0 < m" by (simp add: m_def)
  then obtain m' where m': "m = Suc m'" by (cases m) auto
  have "src = replicate m' (Suc 0) @ Suc 0 # fd"
    using m' by (simp add: src_def sm m_def [symmetric])
  then have src: "src = replicate m (Suc 0) @ fd"
    by (simp add: m' replicate_app_Cons_same)
  have "list_all2 (\<lambda>d g. d = g \<or> d = 1) (replicate m (Suc 0)) od"
    by (simp add: list_all2_conv_all_nth m_def)
  moreover have "list_all2 (\<lambda>d g. d = g \<or> d = 1) fd fd"
    by (simp add: list_all2_conv_all_nth)
  ultimately have compat: "list_all2 (\<lambda>d g. d = g \<or> d = 1) src (od @ fd)"
    unfolding src by (rule list_all2_appendI)
  have len: "\<not> length (od @ fd) < length (shape mk)"
    using \<open>0 < m\<close> by (simp add: sm m_def)
  define efi where "efi = \<lparr>shape = od @ fd,
      elems = map (\<lambda>k. elems mk ! ravel src (broadcast_index src (unravel (od @ fd) k)))
                  [0..<prod_list (od @ fd)]\<rparr>"
  have ex: "tensor_expand mk (od @ fd) = Inr efi"
    using len compat
    by (simp only: tensor_expand_def Let_def src_def [symmetric] efi_def if_False if_True)
  have "tensor_at efi (io @ jf) = tensor_at mk (0 # jf)"
    if io: "valid_index od io" and jf: "valid_index fd jf" for io jf
  proof -
    have lio: "length io = m" using io by (simp add: valid_index_length m_def)
    have v: "valid_index (od @ fd) (io @ jf)"
      using io jf lio by (simp add: valid_index_append m_def)
    have "tensor_at efi (io @ jf) = elems mk ! ravel src (broadcast_index src (io @ jf))"
      using ex v src_def by (rule tensor_expand_at)
    also have "broadcast_index src (io @ jf) = replicate m 0 @ jf"
      using lio jf
      by (simp add: src broadcast_index_append broadcast_index_ones broadcast_index_same)
    also have "ravel src (replicate m 0 @ jf) = ravel fd jf"
      by (simp add: src ravel_append)
    finally show ?thesis by (simp add: tensor_at_def sm)
  qed
  with ex show ?thesis by (auto simp: efi_def)
qed

lemma expand_unique_attr:
  assumes su: "shape u = od @ [n]" and lb: "length fb = k"
  shows "\<exists>eua. (case tensor_reshape u (od @ replicate k 1 @ [n]) of
                  Inl e \<Rightarrow> Inl e
                | Inr r \<Rightarrow> tensor_expand r (od @ fb @ [n])) = Inr eua \<and>
           shape eua = od @ fb @ [n] \<and>
           (\<forall>io jb v. valid_index od io \<and> valid_index fb jb \<and> v < n \<longrightarrow>
              tensor_at eua (io @ jb @ [v]) = tensor_at u (io @ [v]))"
proof -
  define us where "us = od @ replicate k (Suc 0) @ [n]"
  define r where "r = \<lparr>shape = us, elems = elems u\<rparr>"
  have rs: "tensor_reshape u (od @ replicate k 1 @ [n]) = Inr r"
    by (simp add: tensor_reshape_def su r_def us_def)
  have compat: "list_all2 (\<lambda>d g. d = g \<or> d = 1) us (od @ fb @ [n])"
    unfolding us_def
    by (intro list_all2_appendI) (simp_all add: list_all2_conv_all_nth lb)
  have len: "length (od @ fb @ [n]) - length (shape r) = 0"
    by (simp add: r_def us_def lb)
  define eua where "eua = \<lparr>shape = od @ fb @ [n],
      elems = map (\<lambda>j. elems r ! ravel us (broadcast_index us (unravel (od @ fb @ [n]) j)))
                  [0..<prod_list (od @ fb @ [n])]\<rparr>"
  have ex: "tensor_expand r (od @ fb @ [n]) = Inr eua"
    using compat len by (simp add: tensor_expand_def Let_def r_def eua_def us_def lb)
  have "tensor_at eua (io @ jb @ [v]) = tensor_at u (io @ [v])"
    if io: "valid_index od io" and jb: "valid_index fb jb" and v: "v < n" for io jb v
  proof -
    have lio: "length io = length od" using io by (simp add: valid_index_length)
    have ljb: "length jb = k" using jb lb by (simp add: valid_index_length)
    have val: "valid_index (od @ fb @ [n]) (io @ jb @ [v])"
      using io jb v lio ljb lb by (simp add: valid_index_append)
    have src: "replicate (length (od @ fb @ [n]) - length (shape r)) 1 @ shape r = us"
      using len by (simp add: r_def)
    have "tensor_at eua (io @ jb @ [v]) = elems r ! ravel us (broadcast_index us (io @ jb @ [v]))"
      using tensor_expand_at [OF ex val src [symmetric]] .
    also have "broadcast_index us (io @ jb @ [v]) = io @ replicate k 0 @ [v]"
      using lio ljb io v
      by (simp add: us_def broadcast_index_append broadcast_index_ones broadcast_index_same)
    also have "ravel us (io @ replicate k 0 @ [v]) = ravel (od @ [n]) (io @ [v])"
      using lio by (simp add: us_def ravel_append)
    finally show ?thesis by (simp add: tensor_at_def su r_def)
  qed
  with rs ex show ?thesis by (auto simp: eua_def)
qed

lemma torch_gather_ok:
  assumes "shape inp \<noteq> []" and "shape index \<noteq> []"
    and "length (shape inp) = length (shape index)"
    and "butlast (shape index) = butlast (shape inp)"
    and "\<forall>v \<in> set (elems index). 0 \<le> v \<and> v < int (last (shape inp))"
  shows "\<exists>out. torch_gather inp index = Inr out"
  using assms by (auto simp: torch_gather_def Let_def list_all2_same)

lemma tensor_at_mem:
  assumes "wf_tensor t" and "valid_index (shape t) idx"
  shows "tensor_at t idx \<in> set (elems t)"
proof -
  from assms(2) have "ravel (shape t) idx < prod_list (shape t)" by (rule ravel_lt)
  with assms(1) show ?thesis by (simp add: tensor_at_def wf_tensor_def)
qed

lemma convert_one_correct:
  assumes su: "shape u = od @ [n]" and od: "od \<noteq> []"
    and si: "shape inp = b # fd" and fd: "fd \<noteq> []"
    and sm: "shape mk = 1 # fd" and wm: "wf_tensor mk"
    and rng: "\<forall>v \<in> set (elems mk). 0 \<le> v \<and> v < int n"
  shows "\<exists>out. convert_one u inp mk = Inr out \<and> shape out = od @ fd \<and> wf_tensor out \<and>
           (\<forall>io jf. valid_index od io \<and> valid_index fd jf \<longrightarrow>
              tensor_at out (io @ jf) = tensor_at u (io @ [nat (tensor_at mk (0 # jf))]))"
proof -
  define fb where "fb = butlast fd"
  from fd obtain l where fdl: "fd = fb @ [l]"
    by (cases fd rule: rev_cases) (auto simp: fb_def)
  from expand_feature_mask [OF sm od] obtain efi
    where ex: "tensor_expand mk (od @ fd) = Inr efi" and se: "shape efi = od @ fd"
      and ate: "\<And>io jf. valid_index od io \<Longrightarrow> valid_index fd jf \<Longrightarrow>
                  tensor_at efi (io @ jf) = tensor_at mk (0 # jf)"
    by blast
  define unq where "unq =
    (if 2 < length (shape inp)
     then (case tensor_reshape u (od @ replicate (length fb) 1 @ [n]) of
             Inl e \<Rightarrow> Inl e
           | Inr r \<Rightarrow> tensor_expand r (od @ fb @ [n]))
     else Inr u)"
  have "\<exists>eua. unq = Inr eua \<and> shape eua = od @ fb @ [n] \<and>
           (\<forall>io jb v. valid_index od io \<and> valid_index fb jb \<and> v < n \<longrightarrow>
              tensor_at eua (io @ jb @ [v]) = tensor_at u (io @ [v]))"
  proof (cases "2 < length (shape inp)")
    case True
    then show ?thesis
      using expand_unique_attr [OF su refl, of fb] by (simp add: unq_def)
  next
    case False
    with si fd have "fb = []"
      by (cases fd) (auto simp: fb_def)
    with False show ?thesis by (simp add: unq_def su)
  qed
  then obtain eua where unq: "unq = Inr eua" and sa: "shape eua = od @ fb @ [n]"
    and ata: "\<And>io jb v. valid_index od io \<Longrightarrow> valid_index fb jb \<Longrightarrow> v < n \<Longrightarrow>
                tensor_at eua (io @ jb @ [v]) = tensor_at u (io @ [v])"
    by blast
  have vals: "\<forall>v \<in> set (elems efi). 0 \<le> v \<and> v < int (last (shape eua))"
    using tensor_expand_elems [OF ex wm] rng by (auto simp: sa)
  have "butlast (shape efi) = butlast (shape eua)"
    by (simp add: se sa fdl butlast_append)
  moreover have "length (shape eua) = length (shape efi)"
    by (simp add: se sa fdl)
  ultimately obtain out where g: "torch_gather eua efi = Inr out"
    using torch_gather_ok [of eua efi] vals od by (auto simp: se sa)
  have ne: "shape efi \<noteq> []" "shape eua \<noteq> []" by (simp_all add: se sa od)
  have "convert_one u inp mk = (case unq of Inl e \<Rightarrow> Inl e | Inr a \<Rightarrow> torch_gather a efi)"
    using ex unfolding unq_def fb_def convert_one_def Let_def
    by (simp add: su si cong: sum.case_cong if_cong)
  then have conv: "convert_one u inp mk = Inr out"
    using g by (simp add: unq)
  have "tensor_at out (io @ jf) = tensor_at u (io @ [nat (tensor_at mk (0 # jf))])"
    if io: "valid_index od io" and jf: "valid_index fd jf" for io jf
  proof -
    have lio: "length io = length od" using io by (simp add: valid_index_length)
    from jf have "length jf = length (fb @ [l])"
      using fdl by (simp add: valid_index_length)
    then obtain jb j where jfe: "jf = jb @ [j]" and ljb: "length jb = length fb"
      by (cases jf rule: rev_cases) auto
    from jf have jbv: "valid_index fb jb"
      by (simp add: fdl jfe valid_index_append ljb)
    have val: "valid_index (shape efi) (io @ jf)"
      using io jf lio by (simp add: se valid_index_append)
    define v where "v = tensor_at mk (0 # jf)"
    have "valid_index (shape mk) (0 # jf)" using jf by (simp add: sm)
    with wm have "v \<in> set (elems mk)" unfolding v_def by (rule tensor_at_mem)
    with rng have vr: "nat v < n" by auto
    have "tensor_at out (io @ jf) =
          elems eua ! ravel (shape eua) (butlast (io @ jf) @ [nat (tensor_at efi (io @ jf))])"
      using torch_gather_at(3) [OF g ne val] .
    also have "tensor_at efi (io @ jf) = v"
      using ate [OF io jf] by (simp add: v_def)
    also have "butlast (io @ jf) = io @ jb" by (simp add: jfe butlast_append)
    also have "elems eua ! ravel (shape eua) ((io @ jb) @ [nat v]) = tensor_at eua (io @ jb @ [nat v])"
      by (simp add: tensor_at_def)
    also have "\<dots> = tensor_at u (io @ [nat v])"
      using io jbv vr by (rule ata)
    finally show ?thesis by (simp add: v_def)
  qed
  moreover have "shape out = od @ fd" "wf_tensor out"
    using torch_gather_at(1,2) [OF g ne] by (simp_all add: se)
  ultimately show ?thesis using conv by blast
qed


section \<open>Output reconstruction\<close>

lemma convert_one_gathers:
  assumes su: "shape u = od @ [n]" and od: "od \<noteq> []" and fits: "mask_fits n x mk"
  shows "\<exists>inp out. x = PTensor inp \<and> convert_one u inp mk = Inr out \<and> gathers u od x mk out"
proof -
  from fits obtain inp where x: "x = PTensor inp" and r: "2 \<le> length (shape inp)"
    and sm: "shape mk = 1 # tl (shape inp)" and wm: "wf_tensor mk"
    and rng: "\<forall>v \<in> set (elems mk). 0 \<le> v \<and> v < int n"
    by (auto simp: mask_fits_def)
  from r obtain b fd where si: "shape inp = b # fd" and fd: "fd \<noteq> []"
    by (cases "shape inp") force+
  from sm si have sm': "shape mk = 1 # fd" by simp
  from convert_one_correct [OF su od si fd sm' wm rng]
  obtain out where "convert_one u inp mk = Inr out" and "shape out = od @ fd"
    and "\<forall>io jf. valid_index od io \<and> valid_index fd jf \<longrightarrow>
           tensor_at out (io @ jf) = tensor_at u (io @ [nat (tensor_at mk (0 # jf))])"
    by blast
  then show ?thesis by (auto simp: x gathers_def si)
qed

lemma convert_loop_gathers:
  assumes su: "shape u = od @ [n]" and od: "od \<noteq> []"
  shows "list_all2 (mask_fits n) xs ms \<Longrightarrow>
         \<exists>attr. convert_loop u (zip xs ms) = Inr attr \<and> length attr = length xs \<and>
                (\<forall>i<length xs. gathers u od (xs ! i) (ms ! i) (attr ! i))"
proof (induction xs ms rule: list_all2_induct)
  case Nil
  then show ?case by simp
next
  case (Cons x xs mk ms)
  from convert_one_gathers [OF su od Cons.hyps(1)]
  obtain inp out where x: "x = PTensor inp" and c: "convert_one u inp mk = Inr out"
    and g: "gathers u od x mk out"
    by blast
  from Cons.IH obtain attr where l: "convert_loop u (zip xs ms) = Inr attr"
    and len: "length attr = length xs"
    and gs: "\<forall>i<length xs. gathers u od (xs ! i) (ms ! i) (attr ! i)"
    by blast
  have "convert_loop u (zip (x # xs) (mk # ms)) = Inr (out # attr)"
    by (simp add: x c l ebind_def cons_ok_def)
  moreover have "\<forall>i<length (x # xs). gathers u od ((x # xs) ! i) ((mk # ms) ! i) ((out # attr) ! i)"
    using g gs by (auto simp: nth_Cons split: nat.splits)
  ultimately show ?case using len by auto
qed

text \<open>
  Claim C4 (amended): when the unique attribution tensor has at least one output dimension,
  \<^verbatim>\<open>_convert_output_shape\<close> returns, for every attributable input with at least one
  feature dimension, shape \<open>(batch, *feature_dims)\<close> and a mask of shape
  \<open>(1, *feature_dims)\<close> holding canonical feature indices, a tensor of shape
  \<open>(*output_dims, *feature_dims)\<close> whose value at every position is the entry of the unique
  attribution tensor at the feature index the mask stores at that position.
\<close>

theorem convert_output_shape_gathers:
  assumes "shape unique_attr = output_dims @ [n]" and "output_dims \<noteq> []"
    and "list_all2 (mask_fits n) attr_inps feature_mask"
  shows "\<exists>attr. convert_output_shape unique_attr attr_inps feature_mask = Inr attr \<and>
           length attr = length attr_inps \<and>
           (\<forall>i<length attr_inps.
              gathers unique_attr output_dims (attr_inps ! i) (feature_mask ! i) (attr ! i))"
  using convert_loop_gathers [OF assms] assms(1) by (simp add: convert_output_shape_def)

text \<open>The theorem at the example data, with the tensors the code returns there.\<close>

theorem convert_output_shape_gathers_witness:
  "list_all2 (mask_fits 3) ex_inps ex_masks \<and>
   (\<exists>attr. convert_output_shape ex_unique ex_inps ex_masks = Inr attr \<and>
      attr = [\<lparr>shape = [2, 2, 2], elems = [10, 11, 12, 11, 20, 21, 22, 21]\<rparr>,
              \<lparr>shape = [2, 2], elems = [12, 12, 22, 22]\<rparr>] \<and>
      gathers ex_unique [2] (ex_inps ! 0) (ex_masks ! 0) (attr ! 0) \<and>
      gathers ex_unique [2] (ex_inps ! 1) (ex_masks ! 1) (attr ! 1))"
proof -
  have h1: "shape ex_unique = [2] @ [3]" by (simp add: ex_unique_def)
  have h2: "[2::nat] \<noteq> []" by simp
  have h3: "list_all2 (mask_fits 3) ex_inps ex_masks"
    by (simp add: mask_fits_def ex_inps_def ex_masks_def wf_tensor_def)
  have ev: "convert_output_shape ex_unique ex_inps ex_masks =
      Inr [\<lparr>shape = [2, 2, 2], elems = [10, 11, 12, 11, 20, 21, 22, 21]\<rparr>,
           \<lparr>shape = [2, 2], elems = [12, 12, 22, 22]\<rparr>]"
    by code_simp
  from convert_output_shape_gathers [OF h1 h2 h3] obtain attr
    where a: "convert_output_shape ex_unique ex_inps ex_masks = Inr attr"
      and g: "\<forall>i<length ex_inps.
                gathers ex_unique [2] (ex_inps ! i) (ex_masks ! i) (attr ! i)"
    by blast
  have "length ex_inps = 2" by (simp add: ex_inps_def)
  with g have "gathers ex_unique [2] (ex_inps ! 0) (ex_masks ! 0) (attr ! 0)"
    and "gathers ex_unique [2] (ex_inps ! 1) (ex_masks ! 1) (attr ! 1)"
    by simp_all
  with h3 a ev show ?thesis by simp
qed

text \<open>
  As stated, without the two side conditions, the claim fails: an input with no feature
  dimension (shape \<open>(2)\<close>, mask shape \<open>(1)\<close>) makes \<^verbatim>\<open>torch.gather\<close> raise, since index
  and input differ in their number of dimensions; a unique attribution tensor with no output
  dimension (shape \<open>(1)\<close>) makes \<^verbatim>\<open>mask.expand\<close> raise, since the mask has more
  dimensions than the target.
\<close>

theorem convert_output_shape_counterexample:
  "convert_output_shape \<lparr>shape = [1, 1], elems = [10 :: int]\<rparr>
     [PTensor \<lparr>shape = [2], elems = [3, 4 :: int]\<rparr> :: (int, unit) pyval]
     [\<lparr>shape = [1], elems = [0]\<rparr>] = Inl RuntimeError \<and>
   convert_output_shape \<lparr>shape = [1], elems = [10 :: int]\<rparr>
     [PTensor \<lparr>shape = [2, 1], elems = [3, 4 :: int]\<rparr> :: (int, unit) pyval]
     [\<lparr>shape = [1, 1], elems = [0]\<rparr>] = Inl RuntimeError"
  by code_simp

section \<open>The feature-to-mask index\<close>

lemma defaultdict_get_upd [simp]:
  "defaultdict_get (d(k \<mapsto> v)) k' = (if k' = k then v else defaultdict_get d k')"
  by (simp add: defaultdict_get_def)

lemma add_keys_get:
  "distinct ks \<Longrightarrow>
   defaultdict_get (foldl (\<lambda>d k. d(k \<mapsto> defaultdict_get d k @ [i])) d ks) f =
   defaultdict_get d f @ (if f \<in> set ks then [i] else [])"
  by (induction ks arbitrary: d) auto

lemma add_mask_get:
  "defaultdict_get (add_mask d (i, m)) f =
   defaultdict_get d f @ (if f \<in> set (elems m) then [i] else [])"
  by (simp add: add_mask_def torch_unique_def add_keys_get)

lemma build_snoc:
  "build_feature_idx_to_mask_idx (ms @ [m]) =
   add_mask (build_feature_idx_to_mask_idx ms) (length ms, m)"
  by (simp add: build_feature_idx_to_mask_idx_def)

lemma build_index_get:
  "defaultdict_get (build_feature_idx_to_mask_idx ms) f = masks_containing ms f"
proof (induction ms rule: rev_induct)
  case Nil
  then show ?case
    by (simp add: build_feature_idx_to_mask_idx_def masks_containing_def defaultdict_get_def)
next
  case (snoc m ms)
  have "filter (\<lambda>i. f \<in> set (elems ((ms @ [m]) ! i))) [0..<length ms] =
        filter (\<lambda>i. f \<in> set (elems (ms ! i))) [0..<length ms]"
    by (rule filter_cong) (auto simp: nth_append)
  then show ?case
    using snoc.IH by (simp add: build_snoc add_mask_get masks_containing_def)
qed

lemma add_keys_dom:
  "dom (foldl (\<lambda>d k. d(k \<mapsto> defaultdict_get d k @ [i])) d ks) = dom d \<union> set ks"
  by (induction ks arbitrary: d) auto

lemma build_index_dom:
  "dom (build_feature_idx_to_mask_idx ms) = (\<Union>m \<in> set ms. set (elems m))"
proof (induction ms rule: rev_induct)
  case Nil
  then show ?case by (simp add: build_feature_idx_to_mask_idx_def)
next
  case (snoc m ms)
  then show ?case
    by (auto simp: build_snoc add_mask_def torch_unique_def add_keys_dom)
qed

text \<open>
  Claim C8 (amended): the index built by \<^verbatim>\<open>attribute\<close> maps every feature index to the
  list (in increasing order) of the positions of the masks that contain it; an index has an
  entry, and a non-empty list, exactly when it occurs in at least one mask.
\<close>

theorem feature_idx_to_mask_idx_entries:
  "defaultdict_get (build_feature_idx_to_mask_idx feature_mask) f = masks_containing feature_mask f \<and>
   (build_feature_idx_to_mask_idx feature_mask f \<noteq> None \<longleftrightarrow>
      (\<exists>m \<in> set feature_mask. f \<in> set (elems m))) \<and>
   (defaultdict_get (build_feature_idx_to_mask_idx feature_mask) f \<noteq> [] \<longleftrightarrow>
      (\<exists>m \<in> set feature_mask. f \<in> set (elems m)))"
proof -
  have "(\<exists>m \<in> set feature_mask. f \<in> set (elems m)) =
        (\<exists>i<length feature_mask. f \<in> set (elems (feature_mask ! i)))"
    by (metis in_set_conv_nth)
  then have "(masks_containing feature_mask f \<noteq> []) = (\<exists>m \<in> set feature_mask. f \<in> set (elems m))"
    by (auto simp: masks_containing_def filter_empty_conv)
  moreover have "(build_feature_idx_to_mask_idx feature_mask f \<noteq> None) =
      (\<exists>m \<in> set feature_mask. f \<in> set (elems m))"
    using build_index_dom [of feature_mask] by (auto simp: dom_def)
  ultimately show ?thesis by (simp add: build_index_get)
qed

text \<open>
  As stated the claim fails: nothing in \<^verbatim>\<open>attribute\<close> requires the mask values to cover
  \<open>[0, n_features)\<close>. For one input with the mask values \<open>0, 2\<close> the set-up succeeds with
  \<open>n_features = 3\<close>, and the canonical index 1 has no entry.
\<close>

theorem feature_idx_gap_counterexample:
  "(case attribute_prepare ex_gap_loader None Omitted (Single ex_gap_mask) of
      Inl e \<Rightarrow> False
    | Inr cfg \<Rightarrow>
        n_features cfg = 3 \<and> feature_idx_to_mask_idx cfg 1 = None \<and>
        defaultdict_get (feature_idx_to_mask_idx cfg) 1 = [])"
  by (simp add: ex_gap_loader_def ex_gap_mask_def
      attribute_prepare_def next_iter_def format_inputs_def resolve_roles_def
      attr_inputs_of_def format_baseline_def format_feature_mask_def py_assert_def
      get_max_feature_index_def first_device_def torch_ones_def ebind_def
      build_feature_idx_to_mask_idx_def add_mask_def torch_unique_def defaultdict_get_def)

section \<open>Construction\<close>

text \<open>
  Claim C9: constructing the wrapper with an attribution method whose class is not
  \<^verbatim>\<open>FeatureAblation\<close> fails with the unsupported-method assertion; no wrapper object
  exists on which \<^verbatim>\<open>attribute\<close> could be called.
\<close>

theorem init_rejects_unsupported:
  "method_class m \<noteq> FeatureAblation \<Longrightarrow>
   init m = Inl (AssertionError UnsupportedMethod) \<and> (\<nexists>self. init m = Inr self)"
  by (simp add: init_def SUPPORTED_METHODS_def)

theorem init_rejects_unsupported_witness:
  "method_class ex_saliency \<noteq> FeatureAblation \<and>
   init ex_saliency = Inl (AssertionError UnsupportedMethod)"
  using init_rejects_unsupported [of ex_saliency] by (simp add: ex_saliency_def)

section \<open>Role assignment\<close>

text \<open>
  Claim C10: with an empty \<^verbatim>\<open>input_roles\<close> the two role assertions are not evaluated,
  every position gets the role \<open>need_attr\<close>, and \<^verbatim>\<open>attribute\<close> behaves exactly as with
  \<^verbatim>\<open>input_roles=None\<close>.
\<close>

theorem empty_roles_as_omitted:
  "resolve_roles (Some []) inputs = Inr (replicate (length inputs) need_attr) \<and>
   resolve_roles None inputs = Inr (replicate (length inputs) need_attr) \<and>
   attribute self dataloader (Some []) baselines feature_mask reduce to_metric
     perturbation_per_pass show_progress return_input_shape =
   attribute self dataloader None baselines feature_mask reduce to_metric
     perturbation_per_pass show_progress return_input_shape"
  by (simp add: attribute_def attribute_prepare_def resolve_roles_def map_replicate_const)

section \<open>Validation and set-up\<close>

lemma prepare_success:
  assumes "attribute_prepare dataloader input_roles baselines feature_mask = Inr cfg"
  shows "\<exists>first rest inputs.
      dataloader = first # rest \<and>
      format_inputs first = Inr (inputs, is_inputs_tuple cfg) \<and>
      resolve_roles input_roles inputs = Inr (roles cfg) \<and>
      attr_inputs cfg = attr_inputs_of (roles cfg) inputs \<and>
      formatted_baselines cfg = format_baseline baselines (attr_inputs cfg) \<and>
      length (attr_inputs cfg) = length (formatted_baselines cfg) \<and>
      check_baselines 0 (formatted_baselines cfg) = Inr () \<and>
      format_feature_mask feature_mask (attr_inputs cfg) = Inr (formatted_feature_mask cfg) \<and>
      length (attr_inputs cfg) = length (formatted_feature_mask cfg) \<and>
      check_masks 0 (formatted_feature_mask cfg) = Inr () \<and>
      get_max_feature_index (formatted_feature_mask cfg) = Inr (n_features cfg - 1) \<and>
      first_device (attr_inputs cfg) = Inr () \<and>
      torch_ones [1, n_features cfg] = Inr (feature_indices cfg) \<and>
      feature_idx_to_mask_idx cfg = build_feature_idx_to_mask_idx (formatted_feature_mask cfg)"
  using assms
  by (auto simp: attribute_prepare_def ebind_def py_assert_def Let_def next_iter_def
      split: sum.splits prod.splits if_splits list.splits)

lemma resolve_roles_Inr:
  assumes "resolve_roles input_roles inputs = Inr rs'"
  shows "rs' = effective_roles input_roles (length inputs)"
    and "length rs' = length inputs"
    and "\<And>rs. input_roles = Some rs \<Longrightarrow> rs \<noteq> [] \<Longrightarrow> need_attr \<in> set rs \<and> length rs = length inputs"
  using assms
  by (auto simp: resolve_roles_def effective_roles_def ebind_def py_assert_def map_replicate_const
      split: option.splits if_splits)

lemma check_baselines_Inr:
  "check_baselines i bs = Inr () \<Longrightarrow> PTensor t \<in> set bs \<Longrightarrow> \<not> bad_batch_dim t"
  by (induction i bs rule: check_baselines.induct)
     (auto simp: bad_batch_dim_def split: list.splits if_splits)

lemma check_masks_Inr:
  "check_masks i ms = Inr () \<Longrightarrow> m \<in> set ms \<Longrightarrow> \<not> bad_batch_dim m"
  by (induction i ms rule: check_masks.induct)
     (auto simp: bad_batch_dim_def split: list.splits if_splits)

lemma format_baseline_given:
  "baselines \<noteq> Omitted \<Longrightarrow> format_baseline baselines xs = given baselines"
  by (cases baselines) (auto simp: format_baseline_def given_def)

lemma format_baseline_tensors:
  "PTensor t \<in> set (given baselines) \<Longrightarrow> PTensor t \<in> set (format_baseline baselines xs)"
  by (cases baselines) (auto simp: format_baseline_def given_def)

lemma format_feature_mask_given:
  "feature_mask \<noteq> Omitted \<Longrightarrow> format_feature_mask feature_mask xs = Inr (given feature_mask)"
  by (cases feature_mask) (auto simp: format_feature_mask_def given_def)

lemma prepare_rejects:
  assumes dl: "dataloader = first # rest" and fi: "format_inputs first = Inr (inputs, tup)"
    and bad: "configuration_error inputs input_roles baselines feature_mask"
  shows "\<exists>e. attribute_prepare dataloader input_roles baselines feature_mask = Inl e"
proof (rule ccontr)
  assume "\<nexists>e. attribute_prepare dataloader input_roles baselines feature_mask = Inl e"
  then obtain cfg where ok: "attribute_prepare dataloader input_roles baselines feature_mask = Inr cfg"
    by (cases "attribute_prepare dataloader input_roles baselines feature_mask") auto
  from prepare_success [OF ok] dl fi
  have rr: "resolve_roles input_roles inputs = Inr (roles cfg)"
    and ai: "attr_inputs cfg = attr_inputs_of (roles cfg) inputs"
    and fb: "formatted_baselines cfg = format_baseline baselines (attr_inputs cfg)"
    and lb: "length (attr_inputs cfg) = length (formatted_baselines cfg)"
    and cb: "check_baselines 0 (formatted_baselines cfg) = Inr ()"
    and fm: "format_feature_mask feature_mask (attr_inputs cfg) = Inr (formatted_feature_mask cfg)"
    and lm: "length (attr_inputs cfg) = length (formatted_feature_mask cfg)"
    and cm: "check_masks 0 (formatted_feature_mask cfg) = Inr ()"
    by auto
  from resolve_roles_Inr [OF rr]
  have er: "roles cfg = effective_roles input_roles (length inputs)"
    and rok: "\<And>rs. input_roles = Some rs \<Longrightarrow> rs \<noteq> [] \<Longrightarrow>
                need_attr \<in> set rs \<and> length rs = length inputs"
    by auto
  have n: "length (attr_inputs_of (effective_roles input_roles (length inputs)) inputs) =
           length (attr_inputs cfg)"
    by (simp add: ai er)
  from bad consider
      (a) rs where "input_roles = Some rs" "rs \<noteq> []" "length rs \<noteq> length inputs"
    | (b) rs where "input_roles = Some rs" "rs \<noteq> []" "need_attr \<notin> set rs"
    | (c) "baselines \<noteq> Omitted" "length (given baselines) \<noteq> length (attr_inputs cfg)"
    | (d) t where "PTensor t \<in> set (given baselines)" "bad_batch_dim t"
    | (e) "feature_mask \<noteq> Omitted" "length (given feature_mask) \<noteq> length (attr_inputs cfg)"
    | (f) m where "m \<in> set (given feature_mask)" "bad_batch_dim m"
    unfolding configuration_error_def Let_def n by blast
  then show False
  proof cases
    case a
    with rok show False by blast
  next
    case b
    with rok show False by blast
  next
    case c
    with fb lb show False by (simp add: format_baseline_given)
  next
    case d
    from d(1) have "PTensor t \<in> set (formatted_baselines cfg)"
      unfolding fb by (rule format_baseline_tensors)
    with cb d(2) show False by (blast dest: check_baselines_Inr)
  next
    case e
    with fm lm show False by (simp add: format_feature_mask_given)
  next
    case f
    from f(1) have "feature_mask \<noteq> Omitted" by (auto simp: given_def)
    with fm f(1) have "m \<in> set (formatted_feature_mask cfg)"
      by (simp add: format_feature_mask_given)
    with cm f(2) show False by (blast dest: check_masks_Inr)
  qed
qed

text \<open>
  Claim C7 (amended): each configuration error - a non-empty \<^verbatim>\<open>input_roles\<close> whose length
  differs from the tuple arity, a non-empty \<^verbatim>\<open>input_roles\<close> without a need-attribution entry,
  a given baselines or feature-mask tuple whose length differs from the number of attributable
  inputs, a baseline tensor or mask whose first dimension is not 1 - makes \<^verbatim>\<open>attribute\<close>
  raise before the attribution method is called: no traversal of the data source takes place
  and no callback is called.
\<close>

theorem configuration_errors_fail_fast:
  assumes "dataloader = first # rest" and "format_inputs first = Inr (inputs, tup)"
    and "configuration_error inputs input_roles baselines feature_mask"
  shows "\<exists>e. attribute self dataloader input_roles baselines feature_mask reduce to_metric
               perturbation_per_pass show_progress return_input_shape =
             \<lparr>black_box_calls = [], call_log = [], result = Inl e\<rparr>"
  using prepare_rejects [OF assms] by (auto simp: attribute_def)


section \<open>One pass over the data source\<close>

subsection \<open>Which positions go where\<close>

lemma filter_zip_nths:
  "map fst (filter (\<lambda>(x, r). P r) (zip xs rs)) = nths xs {k. k < length rs \<and> P (rs ! k)}"
proof (induction xs arbitrary: rs)
  case Nil
  then show ?case by simp
next
  case (Cons x xs)
  show ?case
  proof (cases rs)
    case Nil
    then show ?thesis by simp
  next
    case (Cons r rs')
    have "{j. Suc j < Suc (length rs') \<and> P ((r # rs') ! Suc j)} = {k. k < length rs' \<and> P (rs' ! k)}"
      by auto
    then show ?thesis
      using Cons.IH [of rs'] by (simp add: Cons nths_Cons)
  qed
qed

lemma forward_inputs_of_nths:
  "forward_inputs_of ps input_roles =
   nths ps {k. k < length input_roles \<and> input_roles ! k \<noteq> no_forward}"
  unfolding forward_inputs_of_def by (rule filter_zip_nths)

lemma length_forward_inputs_of:
  "length ps = length input_roles \<Longrightarrow>
   length (forward_inputs_of ps input_roles) = length (filter (\<lambda>r. r \<noteq> no_forward) input_roles)"
  unfolding forward_inputs_of_def
  by (induction ps input_roles rule: list_induct2) auto

subsection \<open>The loop over one batch\<close>

lemma cons_ok_Inr: "cons_ok x r = Inr ys \<longleftrightarrow> (\<exists>xs. r = Inr xs \<and> ys = x # xs)"
  by (cases r) (auto simp: cons_ok_def)

lemma ebind_Inr: "ebind m f = Inr y \<longleftrightarrow> (\<exists>x. m = Inr x \<and> f x = Inr y)"
  by (cases m) (auto simp: ebind_def)

lemma attr_index_0 [simp]: "attr_index rs 0 = 0"
  by (simp add: attr_index_def)

lemma attr_index_Suc [simp]:
  "attr_index (r # rs) (Suc k) = (if r = need_attr then Suc (attr_index rs k) else attr_index rs k)"
  by (simp add: attr_index_def)

lemma perturb_loop_nth:
  "perturb_loop pm bl (zip elts rs) c = Inr out \<Longrightarrow>
   length out = min (length elts) (length rs) \<and>
   (\<forall>k<length out.
      (rs ! k \<noteq> need_attr \<longrightarrow> out ! k = elts ! k) \<and>
      (rs ! k = need_attr \<longrightarrow>
         c + attr_index rs k < length pm \<and>
         (pm ! (c + attr_index rs k) = None \<longrightarrow> out ! k = elts ! k) \<and>
         (\<forall>m. pm ! (c + attr_index rs k) = Some m \<longrightarrow>
              c + attr_index rs k < length bl \<and>
              perturbed_inp (elts ! k) m (bl ! (c + attr_index rs k)) = Inr (out ! k))))"
proof (induction elts arbitrary: rs c out)
  case Nil
  then show ?case by simp
next
  case (Cons x elts)
  show ?case
  proof (cases rs)
    case Nil
    with Cons.prems show ?thesis by simp
  next
    case rs: (Cons r rs')
    show ?thesis
    proof (cases "r = need_attr")
      case False
      with Cons.prems rs obtain out' where out: "out = x # out'"
        and rec: "perturb_loop pm bl (zip elts rs') c = Inr out'"
        by (auto simp: cons_ok_Inr)
      from Cons.IH [OF rec] False show ?thesis
        by (auto simp: out rs nth_Cons split: nat.splits)
    next
      case True
      with Cons.prems rs have c: "c < length pm"
        by (auto split: if_splits)
      show ?thesis
      proof (cases "pm ! c")
        case None
        with Cons.prems rs True c obtain out' where out: "out = x # out'"
          and rec: "perturb_loop pm bl (zip elts rs') (Suc c) = Inr out'"
          by (auto simp: cons_ok_Inr)
        from Cons.IH [OF rec] True None c show ?thesis
          by (auto simp: out rs nth_Cons split: nat.splits)
      next
        case (Some m)
        with Cons.prems rs True c obtain y out' where out: "out = y # out'"
          and cb: "c < length bl"
          and y: "perturbed_inp x m (bl ! c) = Inr y"
          and rec: "perturb_loop pm bl (zip elts rs') (Suc c) = Inr out'"
          by (auto simp: cons_ok_Inr ebind_Inr split: if_splits)
        from Cons.IH [OF rec] True Some c cb y show ?thesis
          by (auto simp: out rs nth_Cons split: nat.splits)
      qed
    qed
  qed
qed

subsection \<open>Which masks a pattern touches\<close>








subsection \<open>The traversal and its call log\<close>

lemma forward_calls_append [simp]:
  "forward_calls (xs @ ys) = forward_calls xs @ forward_calls ys"
  by (induction xs rule: forward_calls.induct) auto

lemma reduce_calls_append [simp]:
  "reduce_calls (xs @ ys) = reduce_calls xs @ reduce_calls ys"
  by (induction xs rule: reduce_calls.induct) auto

lemma metric_calls_append [simp]:
  "metric_calls (xs @ ys) = metric_calls xs @ metric_calls ys"
  by (induction xs rule: metric_calls.induct) auto

lemma traverse_success:
  "traverse ff rs bl pm red acc dl = (log, Inr res) \<Longrightarrow>
   metric_calls log = [] \<and>
   map (\<lambda>(a, out, ins). Inr ins) (reduce_calls log) = map (perturb_batch pm bl rs) dl \<and>
   forward_calls log = map (\<lambda>(a, out, ins). forward_inputs_of ins rs) (reduce_calls log) \<and>
   list_all (\<lambda>(a, out, ins). run_forward ff (forward_inputs_of ins rs) = Inr out)
     (reduce_calls log) \<and>
   threaded red acc (reduce_calls log) res"
proof (induction dl arbitrary: acc log)
  case Nil
  then show ?case by simp
next
  case (Cons b dl)
  from Cons.prems obtain ps out acc' log' where
    ps: "perturb_batch pm bl rs b = Inr ps"
    and out: "run_forward ff (forward_inputs_of ps rs) = Inr out"
    and acc': "red acc out ps = Inr acc'"
    and rec: "traverse ff rs bl pm red acc' dl = (log', Inr res)"
    and log: "log = ForwardCall (forward_inputs_of ps rs) # ReduceCall acc out ps # log'"
    by (auto simp: Let_def split: sum.splits prod.splits)
  from Cons.IH [OF rec] ps out acc' show ?case
    by (simp add: log)
qed

lemma forward_with_dataloader_success:
  assumes "forward_with_dataloader ff p dl rs bl ms red tm ppp sp fidx = (log, Inr res)"
  shows "\<exists>pm tlog acc.
      pass_masks p ms fidx = Inr pm \<and>
      traverse ff rs bl pm red PNone dl = (tlog, Inr acc) \<and>
      (case tm of
         None \<Rightarrow> log = tlog \<and> res = acc
       | Some f \<Rightarrow> log = tlog @ [ToMetricCall acc] \<and> f acc = Inr res)"
  using assms
  by (auto simp: forward_with_dataloader_def split: sum.splits prod.splits option.splits)

lemma perturb_batch_tuple:
  "is_tuple_of_arity n b \<Longrightarrow>
   perturb_batch pm bl rs b = perturb_loop pm bl (zip (batch_elems b) rs) 0"
  by (auto simp: is_tuple_of_arity_def perturb_batch_def iter_batch_def batch_elems_def ebind_def)

lemma threaded_nth:
  "threaded red acc rc final \<Longrightarrow> i < length rc \<Longrightarrow>
   (i = 0 \<longrightarrow> fst (rc ! i) = acc) \<and>
   (case rc ! i of (a, out, ins) \<Rightarrow>
      red a out ins = Inr (if Suc i < length rc then fst (rc ! Suc i) else final))"
proof (induction rc arbitrary: acc i)
  case Nil
  then show ?case by simp
next
  case (Cons c rc)
  obtain a out ins where c: "c = (a, out, ins)" by (cases c) auto
  from Cons.prems(1) c obtain acc' where a: "a = acc" and r: "red a out ins = Inr acc'"
    and t: "threaded red acc' rc final"
    by (auto split: sum.splits)
  show ?case
  proof (cases i)
    case 0
    show ?thesis
    proof (cases rc)
      case Nil
      with t r a show ?thesis by (simp add: 0 c)
    next
      case (Cons c' rc')
      obtain a' out' ins' where c': "c' = (a', out', ins')" by (cases c') auto
      from t Cons c' have "a' = acc'" by simp
      with r a show ?thesis by (simp add: 0 c Cons c')
    qed
  next
    case (Suc i')
    with Cons.prems(2) have "i' < length rc" by simp
    from Cons.IH [OF t this] show ?thesis
      by (simp add: Suc split: prod.splits)
  qed
qed

lemma run_logs:
  assumes run: "forward_with_dataloader ff p dl rs bl ms red tm ppp sp fidx = (log, Inr res)"
  shows "\<exists>pm final.
    pass_masks p ms fidx = Inr pm \<and>
    length (reduce_calls log) = length dl \<and>
    (\<forall>i<length dl. perturb_batch pm bl rs (dl ! i) = Inr (reduce_inputs log ! i)) \<and>
    forward_calls log = map (\<lambda>ins. forward_inputs_of ins rs) (reduce_inputs log) \<and>
    list_all (\<lambda>(a, out, ins). run_forward ff (forward_inputs_of ins rs) = Inr out)
       (reduce_calls log) \<and>
    threaded red PNone (reduce_calls log) final \<and>
    (case tm of
       None \<Rightarrow> metric_calls log = [] \<and> res = final
     | Some f \<Rightarrow> metric_calls log = [final] \<and> f final = Inr res \<and>
                 (\<exists>tlog. log = tlog @ [ToMetricCall final] \<and> metric_calls tlog = []))"
proof -
  from forward_with_dataloader_success [OF run] obtain pm tlog acc where
    pm: "pass_masks p ms fidx = Inr pm"
    and tr: "traverse ff rs bl pm red PNone dl = (tlog, Inr acc)"
    and tm: "case tm of
         None \<Rightarrow> log = tlog \<and> res = acc
       | Some f \<Rightarrow> log = tlog @ [ToMetricCall acc] \<and> f acc = Inr res"
    by blast
  note t = traverse_success [OF tr]
  from tm have rc: "reduce_calls log = reduce_calls tlog"
    and fc: "forward_calls log = forward_calls tlog"
    by (auto split: option.splits)
  from t have m: "map (\<lambda>(a, out, ins). Inr ins) (reduce_calls log) = map (perturb_batch pm bl rs) dl"
    by (simp add: rc)
  then have len: "length (reduce_calls log) = length dl"
    by (rule map_eq_imp_length_eq)
  have nth: "perturb_batch pm bl rs (dl ! i) = Inr (reduce_inputs log ! i)" if "i < length dl" for i
  proof -
    from m have "map (\<lambda>(a, out, ins). Inr ins) (reduce_calls log) ! i = map (perturb_batch pm bl rs) dl ! i"
      by simp
    with that len show ?thesis
      by (simp add: reduce_inputs_def split: prod.splits)
  qed
  have fwd: "forward_calls log = map (\<lambda>ins. forward_inputs_of ins rs) (reduce_inputs log)"
    using t by (simp add: fc rc reduce_inputs_def case_prod_beta comp_def)
  from t tm have "case tm of
       None \<Rightarrow> metric_calls log = [] \<and> res = acc
     | Some f \<Rightarrow> metric_calls log = [acc] \<and> f acc = Inr res \<and>
                 (\<exists>tlog. log = tlog @ [ToMetricCall acc] \<and> metric_calls tlog = [])"
    by (auto split: option.splits)
  with pm len nth fwd t show ?thesis
    by (intro exI [of _ pm] exI [of _ acc]) (simp add: rc)
qed

lemma perturbed_tuple_length:
  assumes "perturb_batch pm bl rs b = Inr ps" and "is_tuple_of_arity (length rs) b"
  shows "length ps = length rs" and "length (batch_elems b) = length rs"
proof -
  from assms(2) show l: "length (batch_elems b) = length rs"
    by (auto simp: is_tuple_of_arity_def batch_elems_def)
  from assms have "perturb_loop pm bl (zip (batch_elems b) rs) 0 = Inr ps"
    by (simp add: perturb_batch_tuple)
  from perturb_loop_nth [OF this] l show "length ps = length rs" by simp
qed

text \<open>
  Claim C2: in a pass over batches that are tuples of the arity of the role assignment, the
  forward function is called once per batch with exactly the positions of the perturbed tuple
  whose role is not \<open>no_forward\<close>, in their order (as many arguments as there are such
  roles), and the reduce callback receives the whole perturbed tuple, one entry per position.
\<close>

theorem forward_and_reduce_arguments:
  assumes run: "forward_with_dataloader forward_fn p dataloader input_roles baselines feature_mask
                  reduce to_metric ppp sp fidx = (log, Inr res)"
    and tup: "\<forall>b \<in> set dataloader. is_tuple_of_arity (length input_roles) b"
  shows "length (forward_calls log) = length dataloader \<and>
         length (reduce_inputs log) = length dataloader \<and>
         (\<forall>i<length dataloader.
            length (reduce_inputs log ! i) = length (batch_elems (dataloader ! i)) \<and>
            forward_calls log ! i =
              nths (reduce_inputs log ! i)
                {k. k < length input_roles \<and> input_roles ! k \<noteq> no_forward} \<and>
            length (forward_calls log ! i) =
              length (filter (\<lambda>role. role \<noteq> no_forward) input_roles))"
proof -
  from run_logs [OF run] obtain pm where
    len: "length (reduce_calls log) = length dataloader"
    and nth: "\<And>i. i < length dataloader \<Longrightarrow>
               perturb_batch pm baselines input_roles (dataloader ! i) = Inr (reduce_inputs log ! i)"
    and fwd: "forward_calls log = map (\<lambda>ins. forward_inputs_of ins input_roles) (reduce_inputs log)"
    by blast
  have l2: "length (reduce_inputs log) = length dataloader"
    by (simp add: reduce_inputs_def len)
  have "length (reduce_inputs log ! i) = length (batch_elems (dataloader ! i)) \<and>
        forward_calls log ! i =
          nths (reduce_inputs log ! i) {k. k < length input_roles \<and> input_roles ! k \<noteq> no_forward} \<and>
        length (forward_calls log ! i) = length (filter (\<lambda>role. role \<noteq> no_forward) input_roles)"
    if i: "i < length dataloader" for i
  proof -
    from i tup have "is_tuple_of_arity (length input_roles) (dataloader ! i)" by simp
    from perturbed_tuple_length [OF nth [OF i] this]
    have l: "length (reduce_inputs log ! i) = length input_roles"
      and lb: "length (batch_elems (dataloader ! i)) = length input_roles" .
    have "forward_calls log ! i = forward_inputs_of (reduce_inputs log ! i) input_roles"
      using i l2 by (simp add: fwd)
    with l lb show ?thesis
      by (simp add: forward_inputs_of_nths [symmetric] length_forward_inputs_of)
  qed
  moreover have "length (forward_calls log) = length dataloader"
    by (simp add: fwd l2)
  ultimately show ?thesis using l2 by blast
qed


lemma torch_cat_rows:
  assumes "wf_tensor x" and "wf_tensor y" and "shape x = d1 # s" and "shape y = d2 # s"
  shows "torch_cat x y = Inr \<lparr>shape = (d1 + d2) # s, elems = elems x @ elems y\<rparr>"
proof -
  have x0: "elems x = []" if "shape x = [0]"
    using assms(1) that by (simp add: wf_tensor_def)
  have y0: "elems y = []" if "shape y = [0]"
    using assms(2) that by (simp add: wf_tensor_def)
  show ?thesis
    using assms(3,4) x0 y0 by (auto simp: torch_cat_def intro: tensor.equality)
qed

text \<open>
  Claim C3: in a completed pass reduce is called once per batch; the first call receives
  \<open>None\<close>, every call receives the output of the forward call of its batch and the perturbed
  tuple, and every later call receives the accumulator the call before it returned. If a
  to-metric transform is supplied it is called once, last, on the final accumulator, and its
  result is returned; otherwise the final accumulator is returned. The default reducer returns
  the first output as it is and afterwards concatenates along dimension 0, and it is what
  \<^verbatim>\<open>attribute\<close> passes when \<^verbatim>\<open>reduce\<close> is \<open>None\<close>.
\<close>

theorem reduce_and_to_metric:
  fixes forward_fn :: "('a::ring_1, 'o) forward_fn"
  assumes run: "forward_with_dataloader forward_fn p dataloader input_roles baselines feature_mask
                  reduce to_metric ppp sp fidx = (log, Inr res)"
  shows "(\<exists>final.
      length (reduce_calls log) = length dataloader \<and>
      (\<forall>i<length dataloader.
         case reduce_calls log ! i of (accum, output, ins) \<Rightarrow>
           (i = 0 \<longrightarrow> accum = PNone) \<and>
           run_forward forward_fn (forward_calls log ! i) = Inr output \<and>
           reduce accum output ins =
             Inr (if Suc i < length dataloader then fst (reduce_calls log ! Suc i) else final)) \<and>
      (dataloader = [] \<longrightarrow> final = PNone) \<and>
      (case to_metric of
         None \<Rightarrow> metric_calls log = [] \<and> res = final
       | Some f \<Rightarrow> metric_calls log = [final] \<and> f final = Inr res \<and>
                   (\<exists>tlog. log = tlog @ [ToMetricCall final] \<and> metric_calls tlog = []))) \<and>
      (\<forall>out xs. concat_tensors PNone out xs = (Inr out :: error + ('a, 'o) pyval)) \<and>
      (\<forall>x y d1 d2 s xs.
         wf_tensor x \<and> wf_tensor y \<and> shape x = d1 # s \<and> shape y = d2 # s \<longrightarrow>
         concat_tensors (PTensor x) (PTensor y) xs =
         (Inr (PTensor \<lparr>shape = (d1 + d2) # s, elems = elems x @ elems y\<rparr>)
            :: error + ('a, 'o) pyval)) \<and>
      (\<forall>self cfg.
         black_box_run self cfg dataloader None to_metric ppp sp =
         black_box_run self cfg dataloader (Some concat_tensors) to_metric ppp sp)"
proof -
  from run_logs [OF run] obtain final where
    len: "length (reduce_calls log) = length dataloader"
    and fwd: "forward_calls log = map (\<lambda>ins. forward_inputs_of ins input_roles) (reduce_inputs log)"
    and outs: "list_all (\<lambda>(a, out, ins). run_forward forward_fn (forward_inputs_of ins input_roles) = Inr out)
       (reduce_calls log)"
    and thr: "threaded reduce PNone (reduce_calls log) final"
    and tm: "case to_metric of
         None \<Rightarrow> metric_calls log = [] \<and> res = final
       | Some f \<Rightarrow> metric_calls log = [final] \<and> f final = Inr res \<and>
                   (\<exists>tlog. log = tlog @ [ToMetricCall final] \<and> metric_calls tlog = [])"
    by blast
  have step: "case reduce_calls log ! i of (accum, output, ins) \<Rightarrow>
           (i = 0 \<longrightarrow> accum = PNone) \<and>
           run_forward forward_fn (forward_calls log ! i) = Inr output \<and>
           reduce accum output ins =
             Inr (if Suc i < length dataloader then fst (reduce_calls log ! Suc i) else final)"
    if i: "i < length dataloader" for i
  proof -
    obtain a out ins where c: "reduce_calls log ! i = (a, out, ins)"
      by (cases "reduce_calls log ! i") auto
    from i len have il: "i < length (reduce_calls log)" by simp
    from threaded_nth [OF thr il] c len
    have "i = 0 \<longrightarrow> a = PNone"
      and "reduce a out ins = Inr (if Suc i < length dataloader then fst (reduce_calls log ! Suc i) else final)"
      by auto
    moreover from outs il c have "run_forward forward_fn (forward_inputs_of ins input_roles) = Inr out"
      by (auto simp: list_all_length)
    moreover have "forward_calls log ! i = forward_inputs_of ins input_roles"
      using il c by (simp add: fwd reduce_inputs_def)
    ultimately show ?thesis by (simp add: c)
  qed
  have empty: "dataloader = [] \<longrightarrow> final = PNone"
    using thr len by auto
  have cat: "\<forall>x y d1 d2 s xs.
         wf_tensor x \<and> wf_tensor y \<and> shape x = d1 # s \<and> shape y = d2 # s \<longrightarrow>
         concat_tensors (PTensor x) (PTensor y) xs =
         (Inr (PTensor \<lparr>shape = (d1 + d2) # s, elems = elems x @ elems y\<rparr>)
            :: error + ('a, 'o) pyval)"
    by (simp add: torch_cat_rows ebind_def)
  have dflt: "\<forall>self cfg.
      black_box_run self cfg dataloader None to_metric ppp sp =
      black_box_run self cfg dataloader (Some concat_tensors) to_metric ppp sp"
    by (simp add: black_box_run_def)
  from len step empty tm have "\<exists>final.
      length (reduce_calls log) = length dataloader \<and>
      (\<forall>i<length dataloader.
         case reduce_calls log ! i of (accum, output, ins) \<Rightarrow>
           (i = 0 \<longrightarrow> accum = PNone) \<and>
           run_forward forward_fn (forward_calls log ! i) = Inr output \<and>
           reduce accum output ins =
             Inr (if Suc i < length dataloader then fst (reduce_calls log ! Suc i) else final)) \<and>
      (dataloader = [] \<longrightarrow> final = PNone) \<and>
      (case to_metric of
         None \<Rightarrow> metric_calls log = [] \<and> res = final
       | Some f \<Rightarrow> metric_calls log = [final] \<and> f final = Inr res \<and>
                   (\<exists>tlog. log = tlog @ [ToMetricCall final] \<and> metric_calls tlog = []))"
    by (intro exI [of _ final]) simp
  with cat dflt show ?thesis by simp
qed

section \<open>What attribute returns\<close>

lemma convert_loop_Inr:
  "convert_loop u zs = Inr attr \<Longrightarrow>
   length attr = length zs \<and>
   (\<forall>i<length zs. \<exists>inp. fst (zs ! i) = PTensor inp \<and>
                         convert_one u inp (snd (zs ! i)) = Inr (attr ! i))"
proof (induction u zs arbitrary: attr rule: convert_loop.induct)
  case (1 u)
  then show ?case by simp
next
  case (2 u inp mk rest)
  from "2.prems" obtain a attr' where c: "convert_one u inp mk = Inr a"
    and l: "convert_loop u rest = Inr attr'" and attr: "attr = a # attr'"
    by (auto simp: ebind_Inr cons_ok_Inr)
  from "2.IH" [OF l] c show ?case
    by (auto simp: attr nth_Cons split: nat.splits)
qed simp_all

lemma attr_inputs_of_nths:
  "attr_inputs_of rs xs = nths xs {k. k < length rs \<and> rs ! k = need_attr}"
proof -
  have "map snd (filter (\<lambda>(r, x). r = need_attr) (zip rs xs)) =
        map fst (filter (\<lambda>(x, r). r = need_attr) (zip xs rs))"
  proof (induction rs arbitrary: xs)
    case Nil
    then show ?case by simp
  next
    case (Cons r rs)
    then show ?case by (cases xs) auto
  qed
  then show ?thesis
    by (simp add: attr_inputs_of_def filter_zip_nths)
qed

lemma format_inputs_Inr:
  assumes "format_inputs first = Inr (inputs, tup)"
  shows "inputs = batch_elems first"
    and "tup \<longleftrightarrow> (\<exists>xs. first = BTuple xs \<or> first = BList xs)"
    and "\<not> tup \<Longrightarrow> \<exists>t. first = BSingle (PTensor t)"
  using assms
  by (auto simp: format_inputs_def format_tensor_into_tuples_def batch_elems_def ebind_def
      split: batch.splits pyval.splits)

lemma single_role:
  assumes "resolve_roles input_roles [x] = Inr rs"
  shows "rs = [need_attr]"
proof -
  from resolve_roles_Inr [OF assms]
  have e: "rs = effective_roles input_roles 1" and l: "length rs = 1"
    and ok: "\<And>rs'. input_roles = Some rs' \<Longrightarrow> rs' \<noteq> [] \<Longrightarrow> need_attr \<in> set rs'"
    by auto
  show ?thesis
  proof (cases "\<exists>rs'. input_roles = Some rs' \<and> rs' \<noteq> []")
    case True
    then obtain rs' where s: "input_roles = Some rs'" "rs' \<noteq> []" by blast
    with e have "rs = rs'" by (simp add: effective_roles_def)
    with ok [OF s] l show ?thesis by (cases rs) auto
  next
    case False
    with e show ?thesis by (auto simp: effective_roles_def split: option.splits)
  qed
qed

text \<open>
  Claim C6: when the attribution method returns a tensor, \<^verbatim>\<open>attribute\<close> with
  \<^verbatim>\<open>return_input_shape=False\<close> returns that tensor unchanged. With
  \<^verbatim>\<open>return_input_shape=True\<close> and a reconstruction that succeeds it returns one tensor per
  attributable input, in the order of the attributable positions of the batch: as a tuple when
  the first batch is a tuple or list, and as the single tensor itself when the first batch is a
  single tensor.
\<close>

theorem attribute_result_format:
  assumes prep: "attribute_prepare dataloader input_roles baselines feature_mask = Inr cfg"
    and bb: "black_box_run self cfg dataloader reduce to_metric ppp sp = (log, Inr unique_attr)"
  shows "result (attribute self dataloader input_roles baselines feature_mask reduce to_metric
                   ppp sp False) = Inr (SingleTensor unique_attr) \<and>
         (is_inputs_tuple cfg \<longleftrightarrow> (\<exists>xs. hd dataloader = BTuple xs \<or> hd dataloader = BList xs)) \<and>
         attr_inputs cfg =
           nths (batch_elems (hd dataloader)) {k. k < length (roles cfg) \<and> roles cfg ! k = need_attr} \<and>
         (\<forall>attr. convert_output_shape unique_attr (attr_inputs cfg) (formatted_feature_mask cfg) =
                   Inr attr \<longrightarrow>
            length attr = length (attr_inputs cfg) \<and>
            (\<forall>i<length attr. \<exists>inp. attr_inputs cfg ! i = PTensor inp \<and>
                 convert_one unique_attr inp (formatted_feature_mask cfg ! i) = Inr (attr ! i)) \<and>
            (is_inputs_tuple cfg \<longrightarrow>
               result (attribute self dataloader input_roles baselines feature_mask reduce
                         to_metric ppp sp True) = Inr (TensorTuple attr)) \<and>
            (\<not> is_inputs_tuple cfg \<longrightarrow>
               (\<exists>t. attr = [t] \<and>
                  result (attribute self dataloader input_roles baselines feature_mask reduce
                            to_metric ppp sp True) = Inr (SingleTensor t))))"
proof -
  from prepare_success [OF prep] obtain first rest inputs where
    dl: "dataloader = first # rest"
    and fi: "format_inputs first = Inr (inputs, is_inputs_tuple cfg)"
    and rr: "resolve_roles input_roles inputs = Inr (roles cfg)"
    and ai: "attr_inputs cfg = attr_inputs_of (roles cfg) inputs"
    and lm: "length (attr_inputs cfg) = length (formatted_feature_mask cfg)"
    by blast
  note f = format_inputs_Inr [OF fi]
  have flat: "result (attribute self dataloader input_roles baselines feature_mask reduce to_metric
                   ppp sp False) = Inr (SingleTensor unique_attr)"
    by (simp add: attribute_def prep bb ebind_def)
  have tup: "is_inputs_tuple cfg \<longleftrightarrow> (\<exists>xs. hd dataloader = BTuple xs \<or> hd dataloader = BList xs)"
    using f(2) by (simp add: dl)
  have order: "attr_inputs cfg =
      nths (batch_elems (hd dataloader)) {k. k < length (roles cfg) \<and> roles cfg ! k = need_attr}"
    by (simp add: ai attr_inputs_of_nths f(1) dl)
  have one: "length (attr_inputs cfg) = 1" if "\<not> is_inputs_tuple cfg"
  proof -
    from f(3) [OF that] f(1) obtain t where inp: "inputs = [PTensor t]"
      by (auto simp: batch_elems_def)
    from rr have "roles cfg = [need_attr]"
      unfolding inp by (rule single_role)
    then show ?thesis
      by (simp add: ai inp attr_inputs_of_def)
  qed
  have shaped: "length attr = length (attr_inputs cfg) \<and>
            (\<forall>i<length attr. \<exists>inp. attr_inputs cfg ! i = PTensor inp \<and>
                 convert_one unique_attr inp (formatted_feature_mask cfg ! i) = Inr (attr ! i)) \<and>
            (is_inputs_tuple cfg \<longrightarrow>
               result (attribute self dataloader input_roles baselines feature_mask reduce
                         to_metric ppp sp True) = Inr (TensorTuple attr)) \<and>
            (\<not> is_inputs_tuple cfg \<longrightarrow>
               (\<exists>t. attr = [t] \<and>
                  result (attribute self dataloader input_roles baselines feature_mask reduce
                            to_metric ppp sp True) = Inr (SingleTensor t)))"
    if c: "convert_output_shape unique_attr (attr_inputs cfg) (formatted_feature_mask cfg) = Inr attr"
    for attr
  proof -
    from c have l: "convert_loop unique_attr (zip (attr_inputs cfg) (formatted_feature_mask cfg)) = Inr attr"
      by (simp add: convert_output_shape_def split: if_splits)
    from convert_loop_Inr [OF l] lm
    have len: "length attr = length (attr_inputs cfg)"
      and each: "\<forall>i<length attr. \<exists>inp. attr_inputs cfg ! i = PTensor inp \<and>
                 convert_one unique_attr inp (formatted_feature_mask cfg ! i) = Inr (attr ! i)"
      by auto
    have r: "result (attribute self dataloader input_roles baselines feature_mask reduce
                         to_metric ppp sp True) = format_output (is_inputs_tuple cfg) attr"
      by (simp add: attribute_def prep bb ebind_def c)
    have "\<exists>t. attr = [t] \<and> format_output (is_inputs_tuple cfg) attr = Inr (SingleTensor t)"
      if n: "\<not> is_inputs_tuple cfg"
    proof -
      from one [OF n] len obtain t where "attr = [t]"
        by (cases attr) auto
      with n show ?thesis by (simp add: format_output_def)
    qed
    with len each r show ?thesis
      by (auto simp: format_output_def)
  qed
  from flat tup order shaped show ?thesis by blast
qed

section \<open>The theorems at the example data\<close>

lemma ex_run:
  "forward_with_dataloader ex_forward ex_pattern ex_loader ex_roles ex_baselines ex_pass_masks
     concat_tensors (Some ex_to_metric) (- 1) False (build_feature_idx_to_mask_idx ex_pass_masks) =
   (ex_log, Inr (PNum 42))"
  by code_simp

lemma ex_tuples: "\<forall>b \<in> set ex_loader. is_tuple_of_arity (length ex_roles) b"
  by (simp add: ex_loader_def ex_roles_def is_tuple_of_arity_def)

lemma ex_prepare_fields:
  "(case attribute_prepare ex_loader (Some ex_roles) (Omitted :: (int, unit) pyval py_arg) Omitted of
      Inl e \<Rightarrow> False
    | Inr c \<Rightarrow>
        is_inputs_tuple c = is_inputs_tuple ex_cfg \<and> roles c = roles ex_cfg \<and>
        attr_inputs c = attr_inputs ex_cfg \<and>
        formatted_baselines c = formatted_baselines ex_cfg \<and>
        formatted_feature_mask c = formatted_feature_mask ex_cfg \<and>
        n_features c = n_features ex_cfg \<and> feature_indices c = feature_indices ex_cfg)"
  by code_simp

lemma ex_prepare:
  "attribute_prepare ex_loader (Some ex_roles) Omitted Omitted = Inr ex_cfg"
proof -
  from ex_prepare_fields obtain c where
    p: "attribute_prepare ex_loader (Some ex_roles) (Omitted :: (int, unit) pyval py_arg) Omitted = Inr c"
    and f: "is_inputs_tuple c = is_inputs_tuple ex_cfg" "roles c = roles ex_cfg"
      "attr_inputs c = attr_inputs ex_cfg" "formatted_baselines c = formatted_baselines ex_cfg"
      "formatted_feature_mask c = formatted_feature_mask ex_cfg"
      "n_features c = n_features ex_cfg" "feature_indices c = feature_indices ex_cfg"
    by (auto split: sum.splits)
  from prepare_success [OF p]
  have "feature_idx_to_mask_idx c = build_feature_idx_to_mask_idx (formatted_feature_mask c)"
    by blast
  with f(5) have "feature_idx_to_mask_idx c = feature_idx_to_mask_idx ex_cfg"
    by (simp add: ex_cfg_def)
  with f have "c = ex_cfg" by (intro prepared.equality) simp_all
  with p show ?thesis by simp
qed

lemma ex_black_box:
  "snd (black_box_run ex_self ex_cfg ex_loader None (Some ex_to_metric) (- 1) False) =
   Inr \<lparr>shape = [1, 2], elems = [9, 12]\<rparr>"
  by code_simp


text \<open>Claim C2 at the example pass.\<close>

theorem forward_and_reduce_arguments_witness:
  "list_all (is_tuple_of_arity (length ex_roles)) ex_loader \<and>
   length (forward_calls ex_log) = 2 \<and> length (reduce_inputs ex_log) = 2 \<and>
   length (reduce_inputs ex_log ! 0) = 2 \<and>
   forward_calls ex_log ! 0 =
     nths (reduce_inputs ex_log ! 0) {k. k < length ex_roles \<and> ex_roles ! k \<noteq> no_forward} \<and>
   forward_calls ex_log ! 0 = [PTensor \<lparr>shape = [2, 2], elems = [10, 2, 10, 4]\<rparr>] \<and>
   length (forward_calls ex_log ! 0) = 1"
proof -
  have l: "length ex_loader = 2" by (simp add: ex_loader_def)
  have b: "length (batch_elems (ex_loader ! 0)) = 2"
    by (simp add: ex_loader_def batch_elems_def)
  have f: "length (filter (\<lambda>role. role \<noteq> no_forward) ex_roles) = 1"
    by (simp add: ex_roles_def no_forward_def)
  have v: "forward_calls ex_log ! 0 = [PTensor \<lparr>shape = [2, 2], elems = [10, 2, 10, 4]\<rparr>]"
    by (simp add: ex_log_def)
  from forward_and_reduce_arguments [OF ex_run ex_tuples] l b f v ex_tuples
  show ?thesis by (simp add: list_all_iff)
qed

text \<open>Claim C3 at the example pass.\<close>

theorem reduce_and_to_metric_witness:
  "forward_with_dataloader ex_forward ex_pattern ex_loader ex_roles ex_baselines ex_pass_masks
     concat_tensors (Some ex_to_metric) (- 1) False (build_feature_idx_to_mask_idx ex_pass_masks) =
   (ex_log, Inr (PNum 42)) \<and>
   (\<exists>final. length (reduce_calls ex_log) = 2 \<and> metric_calls ex_log = [final] \<and>
      final = PTensor \<lparr>shape = [2], elems = [26, 16]\<rparr> \<and> ex_to_metric final = Inr (PNum 42))"
proof -
  have l: "length ex_loader = 2" by (simp add: ex_loader_def)
  have m: "metric_calls ex_log = [PTensor \<lparr>shape = [2], elems = [26, 16]\<rparr>]"
    by (simp add: ex_log_def)
  from reduce_and_to_metric [OF ex_run] obtain final where
    "length (reduce_calls ex_log) = length ex_loader"
    and "case Some ex_to_metric of
           None \<Rightarrow> metric_calls ex_log = [] \<and> PNum 42 = final
         | Some f \<Rightarrow> metric_calls ex_log = [final] \<and> f final = Inr (PNum 42) \<and>
                     (\<exists>tlog. ex_log = tlog @ [ToMetricCall final] \<and> metric_calls tlog = [])"
    by blast
  with l m ex_run show ?thesis by simp
qed


text \<open>Claim C6 at the example call.\<close>

theorem attribute_result_format_witness:
  "attribute_prepare ex_loader (Some ex_roles) Omitted Omitted = Inr ex_cfg \<and>
   snd (black_box_run ex_self ex_cfg ex_loader None (Some ex_to_metric) (- 1) False) =
     Inr \<lparr>shape = [1, 2], elems = [9, 12]\<rparr> \<and>
   result (attribute ex_self ex_loader (Some ex_roles) Omitted Omitted None
     (Some ex_to_metric) (- 1) False False) = Inr (SingleTensor \<lparr>shape = [1, 2], elems = [9, 12]\<rparr>) \<and>
   result (attribute ex_self ex_loader (Some ex_roles) Omitted Omitted None
     (Some ex_to_metric) (- 1) False True) = Inr (TensorTuple [\<lparr>shape = [1, 2], elems = [9, 12]\<rparr>])"
proof -
  have bb: "black_box_run ex_self ex_cfg ex_loader None (Some ex_to_metric) (- 1) False =
      (fst (black_box_run ex_self ex_cfg ex_loader None (Some ex_to_metric) (- 1) False),
       Inr \<lparr>shape = [1, 2], elems = [9, 12]\<rparr>)"
    using ex_black_box by (metis prod.collapse)
  have c: "convert_output_shape \<lparr>shape = [1, 2], elems = [9, 12 :: int]\<rparr> (attr_inputs ex_cfg)
             (formatted_feature_mask ex_cfg) = Inr [\<lparr>shape = [1, 2], elems = [9, 12]\<rparr>]"
    unfolding ex_cfg_def by code_simp
  have t: "is_inputs_tuple ex_cfg" by (simp add: ex_cfg_def)
  from attribute_result_format [OF ex_prepare bb] c t ex_prepare ex_black_box
  show ?thesis by simp
qed

text \<open>Claim C7 at the example data source with the roles \<open>(1, 2)\<close>, which hold no attributable role.\<close>

theorem configuration_errors_fail_fast_witness:
  "configuration_error (batch_elems (hd ex_loader)) (Some [1, 2]) Omitted Omitted \<and>
   attribute ex_self ex_loader (Some [1, 2]) Omitted Omitted None (Some ex_to_metric) (- 1) False True =
     \<lparr>black_box_calls = [], call_log = [], result = Inl (AssertionError NoAttrRole)\<rparr>"
proof -
  have dl: "ex_loader = hd ex_loader # tl ex_loader" by (simp add: ex_loader_def)
  have fi: "format_inputs (hd ex_loader) = Inr (batch_elems (hd ex_loader), True)"
    by (simp add: ex_loader_def format_inputs_def batch_elems_def)
  have bad: "configuration_error (batch_elems (hd ex_loader)) (Some [1, 2])
               (Omitted :: (int, unit) pyval py_arg) Omitted"
    by (simp add: configuration_error_def need_attr_def)
  have "attribute_prepare ex_loader (Some [1, 2]) (Omitted :: (int, unit) pyval py_arg) Omitted =
        Inl (AssertionError NoAttrRole)"
    by (simp add: ex_loader_def attribute_prepare_def next_iter_def format_inputs_def
        resolve_roles_def need_attr_def py_assert_def ebind_def)
  then have "attribute ex_self ex_loader (Some [1, 2]) Omitted Omitted None (Some ex_to_metric)
        (- 1) False True =
     \<lparr>black_box_calls = [], call_log = [], result = Inl (AssertionError NoAttrRole)\<rparr>"
    by (simp add: attribute_def)
  with configuration_errors_fail_fast [OF dl fi bad, of ex_self None "Some ex_to_metric" "- 1" False True]
    bad show ?thesis by simp
qed

text \<open>As stated, claim C7 fails for the empty role assignment: its length differs from the arity 2 and it holds no attributable role, yet the call passes validation and calls the attribution method.\<close>

theorem empty_roles_counterexample:
  "length ([] :: int list) \<noteq> length (batch_elems (hd ex_loader)) \<and>
   need_attr \<notin> set [] \<and>
   black_box_calls (attribute ex_self ex_loader (Some []) Omitted Omitted None
     (Some ex_to_metric) (- 1) False True) = [\<lparr>shape = [1, 3], elems = [1, 1, 1]\<rparr>]"
  by code_simp

section \<open>A data source of single tensors\<close>

text \<open>
  The loop of \<^verbatim>\<open>_forward_with_dataloader\<close> zips the batch itself with the roles. A batch that
  is a single tensor is iterated row by row, so with the one role that \<^verbatim>\<open>attribute\<close>
  assigns only its first row is taken. The theorems about the positions of a batch are
  therefore stated for batches that are tuples or lists.
\<close>

lemma single_tensor_batch_rows:
  "perturb_batch [None] [PNum 0] [need_attr]
     (BSingle (PTensor \<lparr>shape = [2, 2], elems = [1, 2, 3, 4 :: int]\<rparr>) :: (int, unit) batch) =
   Inr [PTensor \<lparr>shape = [2], elems = [1, 2]\<rparr>]"
  by code_simp

end
